theory Spec2Isabelle
  imports Main "HOL-Library.AList"
begin

section \<open>Python values, exceptions and results\<close>

text \<open>
  An exception of the source is a value of \<open>error\<close>; a method that can raise returns
  \<open>error + 'r\<close> with \<open>Inl\<close> the exception. The string carried is the message (or, for
  \<open>KeyError\<close> and \<open>AttributeError\<close>, the missing key or attribute).
\<close>

datatype error =
    NotImplementedError string
  | IndexError string
  | ValueError string
  | KeyError string
  | TypeError string
  | AttributeError string
  | AssertionError string
  | NameError string
  | PermissionError string

definition bindE :: "error + 'a \<Rightarrow> ('a \<Rightarrow> error + 'b) \<Rightarrow> error + 'b" where
  "bindE m f = (case m of Inl e \<Rightarrow> Inl e | Inr v \<Rightarrow> f v)"

text \<open>A list comprehension over a constructor that can raise: the first exception wins.\<close>

fun mapE :: "('a \<Rightarrow> error + 'b) \<Rightarrow> 'a list \<Rightarrow> error + 'b list" where
  "mapE f [] = Inr []"
| "mapE f (x # xs) =
     (case f x of
        Inl e \<Rightarrow> Inl e
      | Inr y \<Rightarrow> (case mapE f xs of Inl e \<Rightarrow> Inl e | Inr ys \<Rightarrow> Inr (y # ys)))"

text \<open>
  Header values are Python strings, integers and lists of them (floating-point header
  values are outside the model). A header is a dict with string keys, kept as an
  association list read with \<open>map_of\<close> and written with \<open>AList.update\<close>.
\<close>

datatype pyval = PStr string | PInt int | PList "pyval list"

type_synonym header = "(string \<times> pyval) list"

definition hdr_get :: "header \<Rightarrow> string \<Rightarrow> error + pyval" where
  "hdr_get h k = (case map_of h k of None \<Rightarrow> Inl (KeyError k) | Some v \<Rightarrow> Inr v)"

text \<open>Python sequence indexing \<open>xs[i]\<close>: a negative index counts from the end.\<close>

definition py_index :: "'a list \<Rightarrow> int \<Rightarrow> error + 'a" where
  "py_index xs i =
     (if 0 \<le> i \<and> i < int (length xs) then Inr (xs ! nat i)
      else if i < 0 \<and> - int (length xs) \<le> i then Inr (xs ! nat (int (length xs) + i))
      else Inl (IndexError ''index out of range''))"

text \<open>\<open>v[i]\<close> on a header value: lists and strings can be indexed, integers cannot.\<close>

definition pyval_index :: "pyval \<Rightarrow> int \<Rightarrow> error + pyval" where
  "pyval_index v i =
     (case v of
        PList xs \<Rightarrow> py_index xs i
      | PStr s \<Rightarrow> map_sum id (\<lambda>c. PStr [c]) (py_index s i)
      | PInt _ \<Rightarrow> Inl (TypeError ''not subscriptable''))"

text \<open>The slices \<open>v[-12:]\<close> and \<open>v[:-13]\<close> of \<open>__str__\<close>, \<open>time\<close> and \<open>date\<close>.\<close>

definition slice_last :: "nat \<Rightarrow> pyval \<Rightarrow> error + pyval" where
  "slice_last n v =
     (case v of
        PStr s \<Rightarrow> Inr (PStr (drop (length s - n) s))
      | PList xs \<Rightarrow> Inr (PList (drop (length xs - n) xs))
      | PInt _ \<Rightarrow> Inl (TypeError ''not subscriptable''))"

definition slice_butlast :: "nat \<Rightarrow> pyval \<Rightarrow> error + pyval" where
  "slice_butlast n v =
     (case v of
        PStr s \<Rightarrow> Inr (PStr (take (length s - n) s))
      | PList xs \<Rightarrow> Inr (PList (take (length xs - n) xs))
      | PInt _ \<Rightarrow> Inl (TypeError ''not subscriptable''))"

text \<open>\<open>a + b\<close> and \<open>a * n\<close> on header values.\<close>

definition py_add :: "pyval \<Rightarrow> pyval \<Rightarrow> error + pyval" where
  "py_add a b =
     (case (a, b) of
        (PStr s, PStr t) \<Rightarrow> Inr (PStr (s @ t))
      | (PInt m, PInt n) \<Rightarrow> Inr (PInt (m + n))
      | (PList xs, PList ys) \<Rightarrow> Inr (PList (xs @ ys))
      | _ \<Rightarrow> Inl (TypeError ''unsupported operand type(s) for +''))"

definition py_mul :: "pyval \<Rightarrow> nat \<Rightarrow> pyval" where
  "py_mul a n =
     (case a of
        PInt m \<Rightarrow> PInt (m * int n)
      | PStr s \<Rightarrow> PStr (concat (replicate n s))
      | PList xs \<Rightarrow> PList (concat (replicate n xs)))"

text \<open>\<open>sub in s\<close> on strings: \<open>sub\<close> occurs in \<open>s\<close> as a contiguous substring.\<close>

fun contains :: "string \<Rightarrow> string \<Rightarrow> bool" where
  "contains sub [] = (sub = [])"
| "contains sub (c # cs) = (take (length sub) (c # cs) = sub \<or> contains sub cs)"

definition digit_char :: "nat \<Rightarrow> char" where
  "digit_char n = ''0123456789'' ! n"

fun string_of_nat :: "nat \<Rightarrow> string" where
  "string_of_nat n =
     (if n < 10 then [digit_char n] else string_of_nat (n div 10) @ [digit_char (n mod 10)])"

section \<open>Arrays, index items and the external libraries\<close>

text \<open>
  An array is its shape and an opaque payload; \<open>ndim\<close> is the length of the shape.
\<close>

datatype 'a ndarray = NDArray (shape: "nat list") (payload: 'a)

definition ndim :: "'a ndarray \<Rightarrow> nat" where
  "ndim a = length (shape a)"

text \<open>
  What can stand in a subscript or as an index argument: an integer, a \<open>slice\<close> object
  (start, stop, step) or a sequence of integers such as \<open>np.arange(n)\<close>.
\<close>

datatype item = IInt int | ISlice "int option" "int option" "int option" | ISeq "int list"

definition is_slice :: "item \<Rightarrow> bool" where
  "is_slice it = (case it of ISlice _ _ _ \<Rightarrow> True | _ \<Rightarrow> False)"

definition all_slice :: item where
  "all_slice = ISlice None None None"

definition arange :: "nat \<Rightarrow> item" where
  "arange n = ISeq (map int [0..<n])"

text \<open>
  The attribute \<open>ind\<close> that slicing records (the slicing mixins are not among the
  sources; the methods read it as an integer, as a slice or as a tuple of both; a list
  or array of integers is a single \<open>ISeq\<close>). \<open>self.ind[i]\<close> raises \<open>TypeError\<close> on a
  single integer or slice, gives the \<open>i\<close>-th integer of a single sequence, and raises
  \<open>IndexError\<close> out of range.
\<close>

datatype index = Single item | Tuple "item list"

definition ind_get :: "index \<Rightarrow> int \<Rightarrow> error + item" where
  "ind_get i k =
     (case i of
        Single (ISeq ns) \<Rightarrow> map_sum id IInt (py_index ns k)
      | Single _ \<Rightarrow> Inl (TypeError ''not subscriptable'')
      | Tuple xs \<Rightarrow> py_index xs k)"

text \<open>
  Modelled from the spec: the class \<open>ObjDict\<close> of \<open>utils\<close> is not among the sources.
  The spec calls it an in-memory dict-like container; the source builds one with
  \<open>ObjDict({})\<close>, writes it as \<open>file["data"] = ...\<close> and reads it as \<open>file.data\<close>.
  So a container is a dict with string keys whose entries are also attributes:
  \<open>k in d\<close> tests the keys, and reading a missing attribute raises
  \<open>AttributeError\<close>. Its values are an array, a header that is a plain dict
  (\<open>OHeader\<close>), the attributes of a Zarr array opened with \<open>mode="r"\<close> (\<open>OAttrs\<close>:
  they read like a dict and refuse every write), or an object that is neither a
  mapping nor subscriptable (\<open>OOther\<close>).
\<close>

datatype 'a oval = OArray "'a ndarray" | OHeader header | OAttrs header | OOther

type_synonym 'a objdict = "(string \<times> 'a oval) list"

text \<open>
  What \<open>self.file\<close> holds: the primary HDU of a FITS file (its array and its FITS
  header, both owned by the FITS library) or a container.
\<close>

datatype 'a file_object = HDU "'a ndarray" header | ObjDict "'a objdict"

text \<open>
  Everything the wrappers forward to: the file readers, the WCS library (\<open>'w\<close> are its
  WCS objects, \<open>'x\<close> its world-side values: coordinates, quantities, floats), the
  builtin \<open>str\<close> and the rotation helpers of \<open>utils\<close>. The fields are parameters of
  the model: the wrappers are verified for every choice of them. A call into a library
  is taken to return; only the file readers and a write into a FITS header can fail.

  \<^item> \<open>fits_open s\<close> is \<open>fits.open(s)[0]\<close> and \<open>zarr_open s\<close> is \<open>zarr.open(s, mode="r")\<close>,
    each as the array and the header it holds; \<open>h5_open s\<close> is \<open>h5py.File(s, "r")\<close>;
  \<^item> \<open>WCS h\<close> is \<open>WCS(header)\<close>; \<open>zarr_header_to_wcs h nonu\<close> is the helper of \<open>io\<close>;
  \<^item> \<open>low_level_wcs w\<close> is \<open>w.low_level_wcs\<close>, \<open>under_wcs l\<close> is \<open>l._wcs\<close>,
    \<open>array_shape\<close> and \<open>naxis\<close> are the attributes of those names,
    \<open>wcs_getitem w items\<close> is \<open>w[items]\<close>;
  \<^item> \<open>array_index_to_world w args\<close> and \<open>world_to_array_index w sc\<close> are the two
    transforms of \<open>w\<close>; \<open>item1 r\<close> is \<open>r[1]\<close>, \<open>iterate r\<close> the elements of \<open>r\<close>;
  \<^item> \<open>angstrom q\<close> is \<open>q << u.Angstrom\<close>, \<open>arcsec q\<close> is \<open>q << u.arcsec\<close>,
    \<open>to_unit q v\<close> is \<open>q << v\<close>, \<open>SkyCoord lon lat\<close> is
    \<open>SkyCoord(lon, lat, frame=Helioprojective)\<close>, \<open>Tx\<close> and \<open>Ty\<close> are \<open>sc.Tx\<close> and
    \<open>sc.Ty\<close>, \<open>q_value q\<close> is \<open>q.value\<close>;
  \<^item> \<open>np_round\<close> and \<open>np_round_hdr\<close> are \<open>np.round(_, decimals=2)\<close> on a world-side
    value and on a header value, \<open>x_minus\<close> is subtraction, \<open>x_str\<close> the text of a
    world-side value in an f-string, \<open>py_str\<close> the builtin \<open>str\<close>,
    \<open>index_array a i\<close> is \<open>a[i]\<close>;
  \<^item> \<open>rotate_crop_data\<close> and \<open>utils_reconstruct_full_frame\<close> are the helpers
    \<open>rotate_crop_data\<close> and \<open>reconstruct_full_frame\<close> of \<open>utils\<close>;
  \<^item> \<open>fits_header_set h k v\<close> is the FITS header after \<open>header[k] = v\<close> (the library
    may refuse the value or store it under another spelling of the key), and
    \<open>fits_data_set h a\<close> is the FITS header after the HDU's \<open>data\<close> is set to \<open>a\<close>.
\<close>

record ('a, 'w, 'x) ext =
  fits_open :: "string \<Rightarrow> error + ('a ndarray \<times> header)"
  zarr_open :: "string \<Rightarrow> error + ('a ndarray \<times> header)"
  WCS :: "header \<Rightarrow> 'w"
  zarr_header_to_wcs :: "header \<Rightarrow> bool \<Rightarrow> 'w"
  low_level_wcs :: "'w \<Rightarrow> 'w"
  under_wcs :: "'w \<Rightarrow> 'w"
  array_shape :: "'w \<Rightarrow> nat list"
  naxis :: "'w \<Rightarrow> nat"
  wcs_getitem :: "'w \<Rightarrow> item list \<Rightarrow> 'w"
  array_index_to_world :: "'w \<Rightarrow> item list \<Rightarrow> 'x"
  world_to_array_index :: "'w \<Rightarrow> 'x \<Rightarrow> int list"
  item1 :: "'x \<Rightarrow> 'x"
  angstrom :: "'x \<Rightarrow> 'x"
  arcsec :: "'x \<Rightarrow> 'x"
  SkyCoord :: "'x \<Rightarrow> 'x \<Rightarrow> 'x"
  Tx :: "'x \<Rightarrow> 'x"
  Ty :: "'x \<Rightarrow> 'x"
  q_value :: "'x \<Rightarrow> 'x"
  np_round :: "'x \<Rightarrow> 'x"
  x_minus :: "'x \<Rightarrow> 'x \<Rightarrow> 'x"
  x_str :: "'x \<Rightarrow> string"
  to_unit :: "'x \<Rightarrow> 'x \<Rightarrow> 'x"
  vac_to_air :: "'x \<Rightarrow> 'x"
  py_str :: "pyval \<Rightarrow> string"
  np_round_hdr :: "pyval \<Rightarrow> pyval"
  rotate_crop_data :: "'a ndarray \<Rightarrow> 'a ndarray \<times> header"
  utils_reconstruct_full_frame :: "header \<Rightarrow> 'a ndarray \<Rightarrow> 'a ndarray"
  h5_open :: "string \<Rightarrow> error + 'a objdict"
  iterate :: "'x \<Rightarrow> 'x list"
  index_array :: "'a ndarray \<Rightarrow> index \<Rightarrow> 'x"
  fits_header_set :: "header \<Rightarrow> string \<Rightarrow> pyval \<Rightarrow> error + header"
  fits_data_set :: "header \<Rightarrow> 'a ndarray \<Rightarrow> header"

section \<open>The observation wrapper \<open>CRISP\<close>\<close>

text \<open>
  The constructor's first argument by its Python type: a string, an \<open>ObjDict\<close>, or a
  value of any other type.
\<close>

datatype 'a filename = FStr string | FObjDict "'a objdict" | FOther

record ('a, 'w) crisp_args =
  a_filename :: "'a filename"
  a_wcs :: "'w option"
  a_uncertainty :: "'a ndarray option"
  a_mask :: "'a ndarray option"
  a_nonu :: bool

text \<open>
  The attributes of a \<open>CRISP\<close> object. \<open>ind\<close>, \<open>full_frame\<close> and \<open>rot_data\<close> are
  \<open>None\<close> while the attribute does not exist; \<open>wcs\<close>, \<open>uncertainty\<close> and
  \<open>mask_attr\<close> are \<open>None\<close> when the attribute holds Python's \<open>None\<close>.
\<close>

record ('a, 'w) crisp =
  file_obj :: "'a file_object"
  wcs :: "'w option"
  nonu :: bool
  uncertainty :: "'a ndarray option"
  mask_attr :: "'a ndarray option"
  rotate_attr :: bool
  ind :: "index option"
  full_frame :: "'a ndarray option"
  rot_data :: "'a ndarray option"

definition crop_keys :: "string list" where
  "crop_keys = [''frame_dims'', ''x_min'', ''x_max'', ''y_min'', ''y_max'', ''angle'']"

text \<open>\<open>self.file.header\<close> and the property \<open>header\<close> (\<open>dict(self.file.header)\<close>).\<close>

definition container_header :: "'a objdict \<Rightarrow> error + header" where
  "container_header d =
     (case map_of d ''header'' of
        None \<Rightarrow> Inl (AttributeError ''header'')
      | Some (OHeader h) \<Rightarrow> Inr h
      | Some (OAttrs h) \<Rightarrow> Inr h
      | Some _ \<Rightarrow> Inl (TypeError ''not a mapping''))"

definition file_header :: "'a file_object \<Rightarrow> error + header" where
  "file_header f = (case f of HDU d h \<Rightarrow> Inr h | ObjDict dd \<Rightarrow> container_header dd)"

definition CRISP_header :: "('a, 'w) crisp \<Rightarrow> error + header" where
  "CRISP_header c = file_header (file_obj c)"

text \<open>The property \<open>data\<close>: \<open>self.file.data[...]\<close>.\<close>

definition CRISP_data :: "('a, 'w) crisp \<Rightarrow> error + 'a ndarray" where
  "CRISP_data c =
     (case file_obj c of
        HDU d h \<Rightarrow> Inr d
      | ObjDict dd \<Rightarrow>
          (case map_of dd ''data'' of
             None \<Rightarrow> Inl (AttributeError ''data'')
           | Some (OArray a) \<Rightarrow> Inr a
           | Some (OHeader _) \<Rightarrow> Inl (KeyError ''Ellipsis'')
           | Some (OAttrs _) \<Rightarrow> Inl (KeyError ''Ellipsis'')
           | Some OOther \<Rightarrow> Inl (TypeError ''not subscriptable'')))"

definition CRISP_shape :: "('a, 'w) crisp \<Rightarrow> error + nat list" where
  "CRISP_shape c = map_sum id shape (CRISP_data c)"

text \<open>
  \<open>sub in filename\<close> as the constructor evaluates it after the type dispatch: a
  substring test on a string, a key test on a container.
\<close>

definition in_filename :: "string \<Rightarrow> 'a filename \<Rightarrow> bool" where
  "in_filename sub fn =
     (case fn of
        FStr s \<Rightarrow> contains sub s
      | FObjDict d \<Rightarrow> sub \<in> fst ` set d
      | FOther \<Rightarrow> False)"

text \<open>
  The two file forms. A FITS file gives its primary HDU. A Zarr store is opened with
  \<open>mode="r"\<close> and put into a fresh container: the array under \<open>data\<close>, its read-only
  attributes under \<open>header\<close>.
\<close>

definition fits_hdu :: "'a ndarray \<times> header \<Rightarrow> 'a file_object" where
  "fits_hdu p = HDU (fst p) (snd p)"

definition zarr_store :: "'a ndarray \<times> header \<Rightarrow> 'a file_object" where
  "zarr_store p = ObjDict [(''data'', OArray (fst p)), (''header'', OAttrs (snd p))]"

definition CRISP_init ::
  "('a, 'w, 'x) ext \<Rightarrow> ('a, 'w) crisp_args \<Rightarrow> error + ('a, 'w) crisp" where
  "CRISP_init E a =
     bindE
       (case a_filename a of
          FStr s \<Rightarrow>
            if contains ''.fits'' s then map_sum id fits_hdu (fits_open E s)
            else if contains ''.zarr'' s then map_sum id zarr_store (zarr_open E s)
            else Inl (NotImplementedError ''m8 y?'')
        | FObjDict d \<Rightarrow> Inr (ObjDict d)
        | FOther \<Rightarrow> Inl (NotImplementedError ''m8 y?''))
       (\<lambda>f. bindE
          (if a_wcs a = None \<and> in_filename ''.fits'' (a_filename a)
             then map_sum id (\<lambda>h. Some (WCS E h)) (file_header f)
           else if a_wcs a = None \<and> in_filename ''.zarr'' (a_filename a)
             then map_sum id (\<lambda>h. Some (zarr_header_to_wcs E h (a_nonu a))) (file_header f)
           else Inr (a_wcs a))
          (\<lambda>w. bindE (file_header f)
             (\<lambda>h. Inr \<lparr> file_obj = f, wcs = w, nonu = a_nonu a,
                        uncertainty = a_uncertainty a, mask_attr = a_mask a,
                        rotate_attr = (\<forall>k \<in> set crop_keys. k \<in> fst ` set h),
                        ind = None, full_frame = None, rot_data = None \<rparr>)))"

subsection \<open>Metadata: \<open>__str__\<close>, \<open>time\<close>, \<open>date\<close>\<close>

text \<open>\<open>try: body except KeyError: handler\<close>: only a \<open>KeyError\<close> is caught.\<close>

definition try_except_KeyError :: "error + 'r \<Rightarrow> error + 'r \<Rightarrow> error + 'r" where
  "try_except_KeyError body handler = (case body of Inl (KeyError _) \<Rightarrow> handler | r \<Rightarrow> r)"

definition string_of_int :: "int \<Rightarrow> string" where
  "string_of_int i = (if i < 0 then CHR ''-'' # string_of_nat (nat (- i)) else string_of_nat (nat i))"

text \<open>
  \<open>str(v)\<close> and the formatting of \<open>v\<close> in an f-string: a string is itself, an
  integer is its decimal numeral, a list is what the builtin gives.
\<close>

definition pstr :: "('a, 'w, 'x) ext \<Rightarrow> pyval \<Rightarrow> string" where
  "pstr E v = (case v of PStr s \<Rightarrow> s | PInt i \<Rightarrow> string_of_int i | PList _ \<Rightarrow> py_str E v)"

text \<open>The constants \<open>aa\<close>, \<open>l\<close> and \<open>D\<close> of the constructor, as UTF-8 bytes.\<close>

definition aa :: string where
  "aa = [CHR 0xE2, CHR 0x84, CHR 0xAB]"

definition lambda_sym :: string where
  "lambda_sym = [CHR 0xCE, CHR 0xBB]"

definition Delta_sym :: string where
  "Delta_sym = [CHR 0xCE, CHR 0x94]"

record str_fields =
  f_date :: string
  f_time :: string
  f_el :: string
  f_cl :: string
  f_wwidth :: string
  f_pointing_x :: string
  f_pointing_y :: string
  f_shape :: string

definition nl :: string where
  "nl = [CHR 0x0A]"

definition render :: "str_fields \<Rightarrow> string" where
  "render r =
     nl @ ''        CRISP Observation'' @
     nl @ ''        ------------------'' @
     nl @ ''        '' @ f_date r @ '' '' @ f_time r @
     nl @
     nl @ ''        Observed: '' @ f_el r @
     nl @ ''        Centre wavelength ['' @ aa @ '']: '' @ f_cl r @
     nl @ ''        Wavelengths sampled: '' @ f_wwidth r @
     nl @ ''        Pointing [arcsec] (HPLN, HPLT): ('' @ f_pointing_x r @ '', '' @ f_pointing_y r @ '')'' @
     nl @ ''        Shape: '' @ f_shape r"

definition str_try :: "('a, 'w, 'x) ext \<Rightarrow> ('a, 'w) crisp \<Rightarrow> error + str_fields" where
  "str_try E c =
     bindE (CRISP_header c) (\<lambda>h.
     bindE (hdr_get h ''DATE-AVG'') (\<lambda>da.
     bindE (slice_last 12 da) (\<lambda>time.
     bindE (slice_butlast 13 da) (\<lambda>date.
     bindE (hdr_get h ''TWAVE1'') (\<lambda>tw.
     bindE (hdr_get h ''WWIDTH1'') (\<lambda>wwidth.
     bindE (CRISP_data c) (\<lambda>dat.
     bindE (mapE (\<lambda>j. hdr_get h (''NAXIS'' @ string_of_nat (j + 1))) (rev [0..<ndim dat])) (\<lambda>nax.
     bindE (hdr_get h ''WDESC1'') (\<lambda>el.
     bindE (hdr_get h ''CRVAL1'') (\<lambda>px.
     bindE (hdr_get h ''CRVAL2'') (\<lambda>py.
       Inr \<lparr> f_date = pstr E date, f_time = pstr E time, f_el = pstr E el,
             f_cl = pstr E (np_round_hdr E tw), f_wwidth = pstr E wwidth,
             f_pointing_x = pstr E px, f_pointing_y = pstr E py,
             f_shape = pstr E (PList nax) \<rparr>)))))))))))"

definition str_except :: "('a, 'w, 'x) ext \<Rightarrow> ('a, 'w) crisp \<Rightarrow> error + str_fields" where
  "str_except E c =
     bindE (CRISP_header c) (\<lambda>h.
     bindE (hdr_get h ''time_obs'') (\<lambda>time.
     bindE (hdr_get h ''date_obs'') (\<lambda>date.
     bindE (hdr_get h ''crval'') (\<lambda>crval.
     bindE (pyval_index crval (- 3)) (\<lambda>cl.
     bindE (hdr_get h ''dimensions'') (\<lambda>dims.
     bindE (pyval_index dims (- 3)) (\<lambda>wwidth.
     bindE (hdr_get h ''element'') (\<lambda>el.
     bindE (pyval_index crval (- 1)) (\<lambda>px.
     bindE (pyval_index crval (- 2)) (\<lambda>py.
       Inr \<lparr> f_date = pstr E date, f_time = pstr E time, f_el = pstr E el,
             f_cl = pstr E cl, f_wwidth = pstr E wwidth,
             f_pointing_x = pstr E px, f_pointing_y = pstr E py,
             f_shape = pstr E dims \<rparr>))))))))))"

definition CRISP_str :: "('a, 'w, 'x) ext \<Rightarrow> ('a, 'w) crisp \<Rightarrow> error + string" where
  "CRISP_str E c = map_sum id render (try_except_KeyError (str_try E c) (str_except E c))"

definition CRISP_time :: "('a, 'w) crisp \<Rightarrow> error + pyval" where
  "CRISP_time c =
     try_except_KeyError
       (bindE (CRISP_header c) (\<lambda>h. bindE (hdr_get h ''DATE-AVG'') (slice_last 12)))
       (bindE (CRISP_header c) (\<lambda>h. hdr_get h ''time_obs''))"

definition CRISP_date :: "('a, 'w) crisp \<Rightarrow> error + pyval" where
  "CRISP_date c =
     try_except_KeyError
       (bindE (CRISP_header c) (\<lambda>h. bindE (hdr_get h ''DATE-AVG'') (slice_butlast 13)))
       (bindE (CRISP_header c) (\<lambda>h. hdr_get h ''date_obs''))"

text \<open>
  The fallback \<open>header["date_obs"] + "T" + header["time_obs"]\<close> shared by the
  plotting methods.
\<close>

definition datetime_fallback :: "header \<Rightarrow> error + pyval" where
  "datetime_fallback h =
     bindE (hdr_get h ''date_obs'') (\<lambda>d.
     bindE (py_add d (PStr ''T'')) (\<lambda>dT.
     bindE (hdr_get h ''time_obs'') (\<lambda>t. py_add dT t)))"

text \<open>The first \<open>try\<close> of \<open>_plot_stokes\<close>: the date-time and the element of the title.\<close>

definition plot_stokes_title_parts :: "('a, 'w) crisp \<Rightarrow> error + (pyval \<times> pyval)" where
  "plot_stokes_title_parts c =
     try_except_KeyError
       (bindE (CRISP_header c) (\<lambda>h.
        bindE (hdr_get h ''DATE-AVG'') (\<lambda>dt.
        bindE (hdr_get h ''WDESC1'') (\<lambda>el. Inr (dt, el)))))
       (bindE (CRISP_header c) (\<lambda>h.
        bindE (datetime_fallback h) (\<lambda>dt.
        bindE (hdr_get h ''element'') (\<lambda>el. Inr (dt, el)))))"

subsection \<open>\<open>rotate_crop\<close> and \<open>reconstruct_full_frame\<close>\<close>

text \<open>
  A method that assigns to attributes returns its result together with the object as
  the call leaves it, also when it raises.
\<close>

text \<open>
  \<open>self.file.header[k] = v\<close>: on an HDU the write is the FITS library's; on a
  container it is a dict update of a plain dict header and is refused by read-only
  Zarr attributes.
\<close>

definition header_setitem ::
  "('a, 'w, 'x) ext \<Rightarrow> 'a file_object \<Rightarrow> string \<Rightarrow> pyval \<Rightarrow> error + 'a file_object" where
  "header_setitem E f k v =
     (case f of
        HDU d h \<Rightarrow> map_sum id (HDU d) (fits_header_set E h k v)
      | ObjDict dd \<Rightarrow>
          (case map_of dd ''header'' of
             None \<Rightarrow> Inl (AttributeError ''header'')
           | Some (OHeader h) \<Rightarrow>
               Inr (ObjDict (AList.update ''header'' (OHeader (AList.update k v h)) dd))
           | Some (OAttrs h) \<Rightarrow> Inl (PermissionError ''attributes are read-only'')
           | Some (OArray a) \<Rightarrow> Inl (IndexError ''not a valid index'')
           | Some OOther \<Rightarrow> Inl (TypeError ''does not support item assignment'')))"

text \<open>\<open>self.file.data = a\<close>: on an HDU the library's setter, on a container a dict update.\<close>

definition data_setattr ::
  "('a, 'w, 'x) ext \<Rightarrow> 'a file_object \<Rightarrow> 'a ndarray \<Rightarrow> 'a file_object" where
  "data_setattr E f a =
     (case f of
        HDU d h \<Rightarrow> HDU a (fits_data_set E h a)
      | ObjDict dd \<Rightarrow> ObjDict (AList.update ''data'' (OArray a) dd))"

text \<open>
  \<open>for k, v in crop_dict.items(): self.file.header[k] = v\<close>: the exception of the
  first write that fails, if any, and the file object with the writes made before it.
\<close>

fun patch_header ::
  "('a, 'w, 'x) ext \<Rightarrow> header \<Rightarrow> 'a file_object \<Rightarrow> error option \<times> 'a file_object" where
  "patch_header E [] f = (None, f)"
| "patch_header E ((k, v) # kvs) f =
     (case header_setitem E f k v of
        Inl e \<Rightarrow> (Some e, f)
      | Inr f' \<Rightarrow> patch_header E kvs f')"

definition CRISP_rotate_crop ::
  "('a, 'w, 'x) ext \<Rightarrow> ('a, 'w) crisp \<Rightarrow> bool \<Rightarrow>
     (error + ('a ndarray \<times> header) option) \<times> ('a, 'w) crisp" where
  "CRISP_rotate_crop E c sep =
     (if sep then (map_sum id (\<lambda>d. Some (rotate_crop_data E d)) (CRISP_data c), c)
      else
        (case CRISP_data c of
           Inl e \<Rightarrow> (Inl e, c)
         | Inr d \<Rightarrow>
             (let c1 = c\<lparr> full_frame := Some d \<rparr>;
                  crop = fst (rotate_crop_data E d);
                  crop_dict = snd (rotate_crop_data E d)
              in case patch_header E crop_dict (file_obj c1) of
                   (Some e, f) \<Rightarrow> (Inl e, c1\<lparr> file_obj := f \<rparr>)
                 | (None, f) \<Rightarrow>
                     (Inr None,
                      c1\<lparr> file_obj := data_setattr E f crop, rotate_attr := True \<rparr>))))"

definition CRISP_reconstruct_full_frame ::
  "('a, 'w, 'x) ext \<Rightarrow> ('a, 'w) crisp \<Rightarrow> bool \<Rightarrow>
     (error + 'a ndarray option) \<times> ('a, 'w) crisp" where
  "CRISP_reconstruct_full_frame E c sep =
     (case bindE (CRISP_header c) (\<lambda>h.
             if ''frame_dims'' \<in> fst ` set h
             then mapE (\<lambda>k. map_sum id (Pair k) (hdr_get h k)) crop_keys
             else Inl (AssertionError [])) of
        Inl e \<Rightarrow> (Inl e, c)
      | Inr crop_dict \<Rightarrow>
          (case CRISP_data c of
             Inl e \<Rightarrow> (Inl e, c)
           | Inr d \<Rightarrow>
               if sep then (Inr (Some (utils_reconstruct_full_frame E crop_dict d)), c)
               else
                 (Inr None,
                  c\<lparr> rot_data := Some d,
                     file_obj := data_setattr E (file_obj c)
                       (utils_reconstruct_full_frame E crop_dict d),
                     rotate_attr := False \<rparr>)))"

subsection \<open>\<open>wave\<close>, \<open>to_lonlat\<close>, \<open>from_lonlat\<close>\<close>

text \<open>\<open>self.wcs.low_level_wcs\<close> raises \<open>AttributeError\<close> when \<open>self.wcs\<close> is \<open>None\<close>.\<close>

definition get_wcs :: "('a, 'w) crisp \<Rightarrow> error + 'w" where
  "get_wcs c = (case wcs c of None \<Rightarrow> Inl (AttributeError ''low_level_wcs'') | Some w \<Rightarrow> Inr w)"

definition get_ind :: "('a, 'w) crisp \<Rightarrow> error + index" where
  "get_ind c = (case ind c of None \<Rightarrow> Inl (AttributeError ''ind'') | Some i \<Rightarrow> Inr i)"

text \<open>\<open>len(self.wcs.low_level_wcs.array_shape)\<close> and \<open>self.wcs.low_level_wcs._wcs\<close>.\<close>

definition rank :: "('a, 'w, 'x) ext \<Rightarrow> 'w \<Rightarrow> nat" where
  "rank E w = length (array_shape E (low_level_wcs E w))"

definition underlying :: "('a, 'w, 'x) ext \<Rightarrow> 'w \<Rightarrow> 'w" where
  "underlying E w = under_wcs E (low_level_wcs E w)"

definition wave_too_many :: string where
  "wave_too_many =
     ''This is way too many dimensions for me to handle. I am but a three-dimensional being.''"

definition no_spectral :: string where
  "no_spectral = ''There is no spectral component to your data.''"

definition CRISP_wave :: "('a, 'w, 'x) ext \<Rightarrow> ('a, 'w) crisp \<Rightarrow> item \<Rightarrow> error + 'x" where
  "CRISP_wave E c idx =
     bindE (get_wcs c) (\<lambda>w.
       if rank E w = 4 then
         (case ind c of
            Some i \<Rightarrow>
              bindE (ind_get i 1) (\<lambda>i1.
                if is_slice i1
                then Inr (angstrom E (array_index_to_world E
                       (wcs_getitem E (underlying E w) [IInt 0, i1, IInt 0, IInt 0]) [idx]))
                else Inr (angstrom E (array_index_to_world E
                       (wcs_getitem E (underlying E w) [IInt 0, all_slice, IInt 0, IInt 0]) [idx])))
          | None \<Rightarrow>
              Inr (angstrom E (array_index_to_world E
                     (wcs_getitem E w [IInt 0, all_slice, IInt 0, IInt 0]) [idx])))
       else if rank E w = 3 then
         (case ind c of
            Some i \<Rightarrow>
              if naxis E (underlying E w) = 4 then
                bindE (ind_get i 1) (\<lambda>i1.
                  if is_slice i1
                  then Inr (angstrom E (array_index_to_world E
                         (wcs_getitem E (underlying E w) [IInt 0, i1, IInt 0, IInt 0]) [idx]))
                  else Inr (angstrom E (array_index_to_world E
                         (wcs_getitem E (underlying E w) [IInt 0, all_slice, IInt 0, IInt 0]) [idx])))
              else
                bindE (ind_get i 0) (\<lambda>i0.
                  if is_slice i0
                  then Inr (angstrom E (array_index_to_world E
                         (wcs_getitem E (underlying E w) [i0, IInt 0, IInt 0]) [idx]))
                  else Inr (angstrom E (array_index_to_world E
                         (wcs_getitem E (underlying E w) [all_slice, IInt 0, IInt 0]) [idx])))
          | None \<Rightarrow>
              Inr (angstrom E (item1 E (array_index_to_world E w [idx, IInt 0, IInt 0]))))
       else if rank E w = 2 then
         (case ind c of
            Some i \<Rightarrow>
              if naxis E (underlying E w) = 4
              then Inr (angstrom E (array_index_to_world E
                     (wcs_getitem E (underlying E w) [IInt 0, all_slice, IInt 0, IInt 0]) [idx]))
              else if naxis E (underlying E w) = 3
              then Inr (angstrom E (array_index_to_world E
                     (wcs_getitem E (underlying E w) [all_slice, IInt 0, IInt 0]) [idx]))
              else Inl (IndexError no_spectral)
          | None \<Rightarrow> Inl (IndexError no_spectral))
       else if rank E w = 1 then Inr (angstrom E (array_index_to_world E w [idx]))
       else Inl (NotImplementedError wave_too_many))"

text \<open>
  The sub-WCS that \<open>to_lonlat\<close> and \<open>from_lonlat\<close> query. The source writes this
  table four times, token for token: in each of the three flag branches of
  \<open>to_lonlat\<close> and in \<open>from_lonlat\<close>.
\<close>

definition too_many_or_little :: string where
  "too_many_or_little = ''Too many or too little dimensions.''"

definition celestial_items :: "item list \<Rightarrow> item \<Rightarrow> item \<Rightarrow> item list" where
  "celestial_items zeros a b =
     (if is_slice a \<and> is_slice b then zeros @ [a, b]
      else if is_slice a \<and> \<not> is_slice b then zeros @ [a]
      else if \<not> is_slice a \<and> is_slice b then zeros @ [all_slice, b]
      else zeros)"

definition lonlat_wcs :: "('a, 'w, 'x) ext \<Rightarrow> ('a, 'w) crisp \<Rightarrow> error + 'w" where
  "lonlat_wcs E c =
     bindE (get_wcs c) (\<lambda>w.
       if rank E w = 4 then
         (case ind c of
            Some i \<Rightarrow>
              bindE (ind_get i (- 2)) (\<lambda>a.
              bindE (ind_get i (- 1)) (\<lambda>b.
                Inr (wcs_getitem E (underlying E w) (celestial_items [IInt 0, IInt 0] a b))))
          | None \<Rightarrow> Inr (wcs_getitem E w [IInt 0, IInt 0]))
       else if rank E w = 3 then
         (case ind c of
            Some i \<Rightarrow>
              if naxis E (underlying E w) = 4 then
                bindE (ind_get i (- 2)) (\<lambda>a.
                bindE (ind_get i (- 1)) (\<lambda>b.
                  Inr (wcs_getitem E (underlying E w) (celestial_items [IInt 0, IInt 0] a b))))
              else
                bindE (ind_get i (- 2)) (\<lambda>a.
                bindE (ind_get i (- 1)) (\<lambda>b.
                  Inr (wcs_getitem E (underlying E w) (celestial_items [IInt 0] a b))))
          | None \<Rightarrow> Inr (wcs_getitem E w [IInt 0]))
       else if rank E w = 2 then Inr w
       else Inl (NotImplementedError too_many_or_little))"

text \<open>
  The three returns of \<open>to_lonlat\<close>: the coordinate object (\<open>coord\<close>), the pair of
  quantities (\<open>unit\<close>), or the pair of their plain values.
\<close>

datatype 'x lonlat = LCoord 'x | LPair 'x 'x

definition CRISP_to_lonlat ::
  "('a, 'w, 'x) ext \<Rightarrow> ('a, 'w) crisp \<Rightarrow> int \<Rightarrow> int \<Rightarrow> bool \<Rightarrow> bool \<Rightarrow> error + 'x lonlat" where
  "CRISP_to_lonlat E c y x coord unit =
     bindE (lonlat_wcs E c) (\<lambda>w.
       let sc = array_index_to_world E w [IInt y, IInt x]
       in if coord then Inr (LCoord sc)
          else if unit then Inr (LPair (Tx E sc) (Ty E sc))
          else Inr (LPair (q_value E (Tx E sc)) (q_value E (Ty E sc))))"

definition CRISP_from_lonlat ::
  "('a, 'w, 'x) ext \<Rightarrow> ('a, 'w) crisp \<Rightarrow> 'x \<Rightarrow> 'x \<Rightarrow> error + int list" where
  "CRISP_from_lonlat E c lon lat =
     (let sc = SkyCoord E (arcsec E lon) (arcsec E lat)
      in bindE (lonlat_wcs E c) (\<lambda>w. Inr (world_to_array_index E w sc)))"

subsection \<open>Plotting: \<open>plot_spectrum\<close>, \<open>plot_stokes\<close>, \<open>_plot_stokes\<close>, \<open>stokes_map\<close>\<close>

text \<open>
  A plotting method ends in a call of one routine of \<open>crisp_plotting\<close>; the model
  returns that call with its arguments (\<open>None\<close> when the method returns without
  plotting).
\<close>

datatype ('a, 'x) plot =
    SingleSpectrum 'x "'a ndarray" string string bool
  | MultiComponentSpectrum "string list" 'x "'a ndarray" string bool
  | SingleFrame string string string "(pyval \<times> pyval) option" "(int \<times> int) option" bool
  | MultiFrame "string list" string "(pyval \<times> pyval) option"

definition stokes_components :: "string list" where
  "stokes_components = [''I'', ''Q'', ''U'', ''V'']"

definition y_labels :: "string \<Rightarrow> string" where
  "y_labels s = s @ '' [DNs]''"

text \<open>\<open>', '.join(components)\<close>\<close>

fun join_comma :: "string list \<Rightarrow> string" where
  "join_comma [] = []"
| "join_comma [s] = s"
| "join_comma (s # t # ts) = s @ '', '' @ join_comma (t # ts)"

definition not_a_stokes :: "string \<Rightarrow> string" where
  "not_a_stokes stokes = ''This ('' @ stokes @ '') is not a Stokes. Expected (I, Q, U, V)''"

definition not_all_valid :: "string \<Rightarrow> string" where
  "not_all_valid stokes =
     ''Not all Stokes components requested ('' @ stokes @ '') are valid (I, Q, U, V).''"

definition CRISP_plot_stokes_internal ::
  "('a, 'w, 'x) ext \<Rightarrow> ('a, 'w) crisp \<Rightarrow> string \<Rightarrow> 'x \<Rightarrow> 'x option \<Rightarrow> bool \<Rightarrow> bool \<Rightarrow>
     error + ('a, 'x) plot option" where
  "CRISP_plot_stokes_internal E c stokes wavelength unit air d =
     bindE (plot_stokes_title_parts c) (\<lambda>(datetime, el).
       let wavelength1 = (case unit of None \<Rightarrow> wavelength | Some u \<Rightarrow> to_unit E wavelength u);
           wavelength2 = (if air then vac_to_air E wavelength1 else wavelength1);
           head = pstr E datetime @ '' '' @ pstr E el @ '' '' @ aa
       in bindE (CRISP_data c) (\<lambda>dat.
            if ndim dat = 1 then
              (if stokes \<notin> set [''I'', ''Q'', ''U'', ''V'']
               then Inl (ValueError (not_a_stokes stokes))
               else Inr (Some (SingleSpectrum wavelength2 dat
                      (head @ '' Stokes '' @ y_labels stokes) (y_labels stokes) d)))
            else if ndim dat = 2 then
              (if stokes = ''all''
               then Inr (Some (MultiComponentSpectrum stokes_components wavelength2 dat
                      (head @ '' All  Stokes'') d))
               else if length stokes < 5 \<and> (\<forall>s \<in> set stokes. [s] \<in> set stokes_components)
               then Inr (Some (MultiComponentSpectrum (map (\<lambda>s. [s]) stokes) wavelength2 dat
                      (head @ '' Stokes '' @ join_comma (map (\<lambda>s. [s]) stokes)) d))
               else Inl (ValueError (not_all_valid stokes)))
            else Inr None))"

definition CRISP_plot_stokes ::
  "('a, 'w, 'x) ext \<Rightarrow> ('a, 'w) crisp \<Rightarrow> string \<Rightarrow> 'x option \<Rightarrow> bool \<Rightarrow> bool \<Rightarrow>
     error + ('a, 'x) plot option" where
  "CRISP_plot_stokes E c stokes unit air d =
     bindE (CRISP_data c) (\<lambda>dat.
     bindE (py_index (shape dat) 0) (\<lambda>n.
     bindE (CRISP_wave E c (arange n)) (\<lambda>wavelength.
       CRISP_plot_stokes_internal E c stokes wavelength unit air d)))"

definition use_plot_stokes :: string where
  "use_plot_stokes = ''If you are using Stokes data please use the plot_stokes method.''"

definition CRISP_plot_spectrum ::
  "('a, 'w, 'x) ext \<Rightarrow> ('a, 'w) crisp \<Rightarrow> 'x option \<Rightarrow> bool \<Rightarrow> bool \<Rightarrow>
     error + ('a, 'x) plot option" where
  "CRISP_plot_spectrum E c unit air d =
     bindE (CRISP_data c) (\<lambda>dat.
       if ndim dat \<noteq> 1 then Inl (IndexError use_plot_stokes)
       else CRISP_plot_stokes E c ''I'' unit air d)"

text \<open>The \<open>try\<close> of \<open>stokes_map\<close> for the date-time of the title.\<close>

definition map_datetime :: "('a, 'w) crisp \<Rightarrow> error + pyval" where
  "map_datetime c =
     try_except_KeyError
       (bindE (CRISP_header c) (\<lambda>h. hdr_get h ''DATE-AVG''))
       (bindE (CRISP_header c) datetime_fallback)"

text \<open>The extent for the frame \<open>arcsec\<close>: \<open>CDELT1\<close>, \<open>CDELT2\<close>, else \<open>pixel_scale\<close>.\<close>

definition extent_with :: "('a, 'w) crisp \<Rightarrow> string \<Rightarrow> string \<Rightarrow> error + (pyval \<times> pyval)" where
  "extent_with c kx ky =
     bindE (CRISP_header c) (\<lambda>h.
     bindE (hdr_get h kx) (\<lambda>sx.
     bindE (CRISP_shape c) (\<lambda>sh.
     bindE (py_index sh (- 1)) (\<lambda>nx.
     bindE (hdr_get h ky) (\<lambda>sy.
     bindE (py_index sh (- 2)) (\<lambda>ny.
       Inr (py_mul sx nx, py_mul sy ny)))))))"

definition map_extent :: "('a, 'w) crisp \<Rightarrow> error + (pyval \<times> pyval)" where
  "map_extent c =
     try_except_KeyError (extent_with c ''CDELT1'' ''CDELT2'')
       (extent_with c ''pixel_scale'' ''pixel_scale'')"

definition norms :: "string \<Rightarrow> (int \<times> int) option" where
  "norms s = (if s = ''I'' then None else if s = ''V'' then Some (- 100, 100) else Some (- 10, 10))"

definition one_component :: "string \<Rightarrow> string" where
  "one_component stokes =
     ''For 2D data can only plot one Stokes component (expected I, Q, U, V, got '' @ stokes @ '').''"

definition not_all_valid_map :: "string \<Rightarrow> string" where
  "not_all_valid_map stokes =
     ''Not all Stokes components requested ('' @ stokes @
     '') are valid (combination of I, Q, U, V expected).''"

text \<open>
  Everything \<open>stokes_map\<close> computes before it looks at the dimensionality of the data:
  the frame, the title and the extent.
\<close>

definition stokes_map_setup ::
  "('a, 'w, 'x) ext \<Rightarrow> ('a, 'w) crisp \<Rightarrow> string option \<Rightarrow>
     error + (string \<times> string \<times> (pyval \<times> pyval) option)" where
  "stokes_map_setup E c frame =
     bindE (get_wcs c) (\<lambda>w.
     bindE (get_ind c) (\<lambda>i.
     bindE (ind_get i 1) (\<lambda>i1.
       let spectral = wcs_getitem E (underlying E w) [IInt 0, all_slice, IInt 0, IInt 0];
           wvl = q_value E (np_round E (angstrom E (array_index_to_world E spectral [i1])))
       in bindE (py_index (array_shape E (underlying E w)) 1) (\<lambda>n1.
            let del_wvl = np_round E (x_minus E wvl (q_value E (angstrom E
                            (array_index_to_world E spectral [IInt (int (n1 div 2))]))))
            in bindE (map_datetime c) (\<lambda>datetime.
                 let title = pstr E datetime @ '' '' @ lambda_sym @ ''='' @ x_str E wvl @ aa @
                             '' ('' @ Delta_sym @ lambda_sym @ ''='' @ x_str E del_wvl @ aa @ '')'';
                     frame1 = (case frame of None \<Rightarrow> ''WCS'' | Some f \<Rightarrow> f);
                     frame2 = (if frame1 = ''WCS'' \<and> rotate_attr c then ''arcsec'' else frame1)
                 in bindE (if frame2 = ''arcsec'' then map_sum id Some (map_extent c)
                           else Inr None)
                      (\<lambda>extent. Inr (frame2, title, extent)))))))"

definition CRISP_stokes_map ::
  "('a, 'w, 'x) ext \<Rightarrow> ('a, 'w) crisp \<Rightarrow> string \<Rightarrow> string option \<Rightarrow>
     error + ('a, 'x) plot option" where
  "CRISP_stokes_map E c stokes frame =
     bindE (stokes_map_setup E c frame) (\<lambda>(frame2, title, extent).
     bindE (CRISP_data c) (\<lambda>dat.
       if ndim dat = 2 then
         (if \<not> (length stokes = 1 \<and> stokes \<in> set stokes_components)
          then Inl (ValueError (one_component stokes))
          else Inr (Some (SingleFrame frame2 (''Stokes '' @ stokes @ '' '' @ title)
                 (stokes @ '' [DNs]'') extent (norms stokes) (stokes = ''I''))))
       else if ndim dat = 3 then
         (if stokes = ''all'' then Inr (Some (MultiFrame stokes_components frame2 extent))
          else if \<not> (\<forall>s \<in> set (map (\<lambda>s. [s]) stokes). s \<in> set stokes_components)
          then Inl (ValueError (not_all_valid_map stokes))
          else Inr (Some (MultiFrame (map (\<lambda>s. [s]) stokes) frame2 extent)))
       else Inr None))"

section \<open>The sequence wrapper \<open>CRISPSequence\<close>\<close>

record ('a, 'w) crisp_sequence =
  seq_list :: "('a, 'w) crisp list"

definition CRISPSequence_init ::
  "('a, 'w, 'x) ext \<Rightarrow> ('a, 'w) crisp_args list \<Rightarrow> error + ('a, 'w) crisp_sequence" where
  "CRISPSequence_init E files = map_sum id (\<lambda>cs. \<lparr> seq_list = cs \<rparr>) (mapE (CRISP_init E) files)"

text \<open>Both conversions of the sequence are those of its first element.\<close>

definition CRISPSequence_from_lonlat ::
  "('a, 'w, 'x) ext \<Rightarrow> ('a, 'w) crisp_sequence \<Rightarrow> 'x \<Rightarrow> 'x \<Rightarrow> error + int list" where
  "CRISPSequence_from_lonlat E s lon lat =
     bindE (py_index (seq_list s) 0) (\<lambda>c. CRISP_from_lonlat E c lon lat)"

definition CRISPSequence_to_lonlat ::
  "('a, 'w, 'x) ext \<Rightarrow> ('a, 'w) crisp_sequence \<Rightarrow> int \<Rightarrow> int \<Rightarrow> error + 'x lonlat" where
  "CRISPSequence_to_lonlat E s y x =
     bindE (py_index (seq_list s) 0) (\<lambda>c. CRISP_to_lonlat E c y x False False)"

section \<open>The inversion result \<open>Inversion\<close>\<close>

text \<open>
  The argument \<open>z\<close> (and the attribute it becomes): a string, or any other object,
  \<open>None\<close> included.
\<close>

datatype 'a zval = ZStr string | ZObj "'a oval option"

text \<open>
  Both branches of the constructor assign the same attributes; \<open>ind\<close> is the
  attribute recorded by slicing, absent on a fresh object.
\<close>

record ('a, 'w) inv_attrs =
  ne :: "'a oval"
  temp :: "'a oval"
  vel :: "'a oval"
  err :: "'a oval"
  inv_wcs :: "'w option"
  z :: "'a zval"
  inv_header :: "header option"
  inv_ind :: "index option"

text \<open>
  An object that has its attributes, or one that has none (\<open>Bare\<close>): what the
  constructor leaves when neither branch of its type dispatch is taken.
\<close>

datatype ('a, 'w) inversion = Bare | Loaded "('a, 'w) inv_attrs"

definition dict_get :: "'a objdict \<Rightarrow> string \<Rightarrow> error + 'a oval" where
  "dict_get d k = (case map_of d k of None \<Rightarrow> Inl (KeyError k) | Some v \<Rightarrow> Inr v)"

definition Inversion_init ::
  "('a, 'w, 'x) ext \<Rightarrow> 'a filename \<Rightarrow> 'w option \<Rightarrow> 'a zval \<Rightarrow> header option \<Rightarrow>
     error + ('a, 'w) inversion" where
  "Inversion_init E filename w zarg hdr =
     (case filename of
        FStr s \<Rightarrow>
          bindE (h5_open E s) (\<lambda>f.
          bindE (dict_get f ''ne'') (\<lambda>n.
          bindE (dict_get f ''temperature'') (\<lambda>t.
          bindE (dict_get f ''vel'') (\<lambda>v.
          bindE (dict_get f ''mad'') (\<lambda>m.
          bindE (case zarg of
                   ZStr zs \<Rightarrow> map_sum id (\<lambda>g. ZObj (map_of g ''z'')) (h5_open E zs)
                 | ZObj zo \<Rightarrow> Inr (ZObj zo)) (\<lambda>zv.
            Inr (Loaded \<lparr> ne = n, temp = t, vel = v, err = m, inv_wcs = w, z = zv,
                           inv_header = hdr, inv_ind = None \<rparr>)))))))
      | FObjDict d \<Rightarrow>
          bindE (dict_get d ''ne'') (\<lambda>n.
          bindE (dict_get d ''temperature'') (\<lambda>t.
          bindE (dict_get d ''vel'') (\<lambda>v.
          bindE (dict_get d ''mad'') (\<lambda>m.
            Inr (Loaded \<lparr> ne = n, temp = t, vel = v, err = m, inv_wcs = w, z = zarg,
                           inv_header = hdr, inv_ind = None \<rparr>)))))
      | FOther \<Rightarrow> Inr Bare)"

text \<open>Reading the attributes of an object: \<open>AttributeError\<close> on a bare one.\<close>

definition attrs :: "string \<Rightarrow> ('a, 'w) inversion \<Rightarrow> error + ('a, 'w) inv_attrs" where
  "attrs name obj = (case obj of Bare \<Rightarrow> Inl (AttributeError name) | Loaded a \<Rightarrow> Inr a)"

text \<open>
  What a plotting method draws: the optional figure title and, per axes, whether it is
  an image on the WCS projection, an image on pixel axes or a line plot against \<open>z\<close>,
  the array shown and the axes title. Axis labels and colour maps are constants of the
  source and are not kept.
\<close>

datatype axes_kind = ImageWCS | ImagePixel | LineZ

datatype 'a figure = Figure "string option" "(axes_kind \<times> 'a oval \<times> string) list"

definition inv_str_none :: string where
  "inv_str_none = ''You know more about this data than me, m8.''"

text \<open>
  \<open>__str__\<close>: with a header it reads \<open>self.file\<close>, an attribute the class never
  assigns.
\<close>

definition Inversion_str ::
  "('a, 'w) inversion \<Rightarrow> (error + string) \<times> ('a, 'w) inversion" where
  "Inversion_str obj =
     (bindE (attrs ''header'' obj) (\<lambda>a.
        case inv_header a of
          None \<Rightarrow> Inr inv_str_none
        | Some _ \<Rightarrow> Inl (AttributeError ''file'')),
      obj)"

text \<open>
  The header's date-time in the inversion methods: \<open>DATE-AVG\<close>, else
  \<open>date-obs\<close> and \<open>time-obs\<close> joined by \<open>T\<close>.
\<close>

definition inv_datetime :: "header \<Rightarrow> error + pyval" where
  "inv_datetime h =
     try_except_KeyError (hdr_get h ''DATE-AVG'')
       (bindE (hdr_get h ''date-obs'') (\<lambda>d.
        bindE (py_add d (PStr ''T'')) (\<lambda>dT.
        bindE (hdr_get h ''time-obs'') (\<lambda>t. py_add dT t))))"

text \<open>
  The title of the \<open>plot_*\<close> methods. The module never imports the name \<open>u\<close>, so
  rounding the first coordinate raises \<open>NameError\<close>; with no coordinate at all,
  \<open>point[0]\<close> raises \<open>IndexError\<close>.
\<close>

definition unpack_ind :: "index option \<Rightarrow> error + item list" where
  "unpack_ind io =
     (case io of
        None \<Rightarrow> Inl (AttributeError ''ind'')
      | Some (Single (ISeq ns)) \<Rightarrow> Inr (map IInt ns)
      | Some (Single _) \<Rightarrow> Inl (TypeError ''not iterable'')
      | Some (Tuple xs) \<Rightarrow> Inr xs)"

definition plot_title ::
  "('a, 'w, 'x) ext \<Rightarrow> ('a, 'w) inv_attrs \<Rightarrow> error + string" where
  "plot_title E a =
     bindE (case inv_wcs a of None \<Rightarrow> Inl (AttributeError ''low_level_wcs'') | Some w \<Rightarrow> Inr w)
       (\<lambda>w.
     bindE (unpack_ind (inv_ind a)) (\<lambda>args.
     bindE (mapE (\<lambda>x. (Inl (NameError ''u'') :: error + 'x))
              (iterate E (array_index_to_world E (wcs_getitem E (underlying E w) [IInt 0]) args)))
       (\<lambda>point.
         case inv_header a of
           Some h \<Rightarrow>
             bindE (inv_datetime h) (\<lambda>datetime.
             bindE (py_index point 0) (\<lambda>p0.
             bindE (py_index point 1) (\<lambda>p1.
               Inr (pstr E datetime @ '' ('' @ x_str E p0 @ '','' @ x_str E p1 @ '')''))))
         | None \<Rightarrow>
             bindE (py_index point 0) (\<lambda>p0.
             bindE (py_index point 1) (\<lambda>p1.
               Inr (''('' @ x_str E p0 @ '', '' @ x_str E p1 @ '')''))))))"

definition Inversion_plot_ne ::
  "('a, 'w, 'x) ext \<Rightarrow> ('a, 'w) inversion \<Rightarrow> (error + 'a figure) \<times> ('a, 'w) inversion" where
  "Inversion_plot_ne E obj =
     (bindE (attrs ''wcs'' obj) (\<lambda>a.
      bindE (plot_title E a) (\<lambda>title.
        Inr (Figure None [(LineZ, ne a, ''Electron Number Density '' @ title)]))),
      obj)"

definition Inversion_plot_temp ::
  "('a, 'w, 'x) ext \<Rightarrow> ('a, 'w) inversion \<Rightarrow> (error + 'a figure) \<times> ('a, 'w) inversion" where
  "Inversion_plot_temp E obj =
     (bindE (attrs ''wcs'' obj) (\<lambda>a.
      bindE (plot_title E a) (\<lambda>title.
        Inr (Figure None [(LineZ, temp a, ''Electron Temperature '' @ title)]))),
      obj)"

definition Inversion_plot_vel ::
  "('a, 'w, 'x) ext \<Rightarrow> ('a, 'w) inversion \<Rightarrow> (error + 'a figure) \<times> ('a, 'w) inversion" where
  "Inversion_plot_vel E obj =
     (bindE (attrs ''wcs'' obj) (\<lambda>a.
      bindE (plot_title E a) (\<lambda>title.
        Inr (Figure None [(LineZ, vel a, ''Bulk Plasma Flow '' @ title)]))),
      obj)"

definition Inversion_plot_params ::
  "('a, 'w, 'x) ext \<Rightarrow> ('a, 'w) inversion \<Rightarrow> (error + 'a figure) \<times> ('a, 'w) inversion" where
  "Inversion_plot_params E obj =
     (bindE (attrs ''wcs'' obj) (\<lambda>a.
      bindE (plot_title E a) (\<lambda>title.
        Inr (Figure (Some title)
               [(LineZ, ne a, ''Electron Number Density''),
                (LineZ, temp a, ''Electron Temperature''),
                (LineZ, vel a, ''Bulk Plasma Flow'')]))),
      obj)"

text \<open>\<open>np.round(self.z[self.ind], decimals=2)\<close>, formatted.\<close>

definition map_height :: "('a, 'w, 'x) ext \<Rightarrow> ('a, 'w) inv_attrs \<Rightarrow> error + string" where
  "map_height E a =
     bindE (case inv_ind a of None \<Rightarrow> Inl (AttributeError ''ind'') | Some i \<Rightarrow> Inr i) (\<lambda>i.
       case z a of
         ZObj (Some (OArray arr)) \<Rightarrow> Inr (x_str E (np_round E (index_array E arr i)))
       | ZObj (Some (OHeader _)) \<Rightarrow> Inl (KeyError ''ind'')
       | ZObj (Some (OAttrs _)) \<Rightarrow> Inl (KeyError ''ind'')
       | ZObj (Some OOther) \<Rightarrow> Inl (TypeError ''not subscriptable'')
       | ZObj None \<Rightarrow> Inl (TypeError ''not subscriptable'')
       | ZStr s \<Rightarrow>
           (case i of
              Single (IInt k) \<Rightarrow> bindE (py_index s k) (\<lambda>_. Inl (TypeError ''round''))
            | Single (ISlice _ _ _) \<Rightarrow> Inl (TypeError ''round'')
            | _ \<Rightarrow> Inl (TypeError ''string indices must be integers'')))"

text \<open>The date-time of the \<open>*_map\<close> titles: empty without a header.\<close>

definition map_datetime_inv :: "('a, 'w, 'x) ext \<Rightarrow> ('a, 'w) inv_attrs \<Rightarrow> error + string" where
  "map_datetime_inv E a =
     (case inv_header a of
        Some h \<Rightarrow> map_sum id (pstr E) (inv_datetime h)
      | None \<Rightarrow> Inr [])"

definition image_kind :: "string option \<Rightarrow> axes_kind" where
  "image_kind frame = (case frame of None \<Rightarrow> ImageWCS | Some _ \<Rightarrow> ImagePixel)"

definition Inversion_ne_map ::
  "('a, 'w, 'x) ext \<Rightarrow> ('a, 'w) inversion \<Rightarrow> string option \<Rightarrow>
     (error + 'a figure) \<times> ('a, 'w) inversion" where
  "Inversion_ne_map E obj frame =
     (bindE (attrs ''z'' obj) (\<lambda>a.
      bindE (map_height E a) (\<lambda>height.
      bindE (map_datetime_inv E a) (\<lambda>datetime.
        Inr (Figure None
               [(image_kind frame, ne a,
                 ''Electron Number Density '' @ datetime @ '' z='' @ height @ ''Mm'')])))),
      obj)"

definition Inversion_temp_map ::
  "('a, 'w, 'x) ext \<Rightarrow> ('a, 'w) inversion \<Rightarrow> string option \<Rightarrow>
     (error + 'a figure) \<times> ('a, 'w) inversion" where
  "Inversion_temp_map E obj frame =
     (bindE (attrs ''z'' obj) (\<lambda>a.
      bindE (map_height E a) (\<lambda>height.
      bindE (map_datetime_inv E a) (\<lambda>datetime.
        Inr (Figure None
               [(image_kind frame, temp a,
                 ''Electron Temperature '' @ datetime @ '' z='' @ height @ ''Mm'')])))),
      obj)"

definition Inversion_vel_map ::
  "('a, 'w, 'x) ext \<Rightarrow> ('a, 'w) inversion \<Rightarrow> string option \<Rightarrow>
     (error + 'a figure) \<times> ('a, 'w) inversion" where
  "Inversion_vel_map E obj frame =
     (bindE (attrs ''z'' obj) (\<lambda>a.
      bindE (map_height E a) (\<lambda>height.
      bindE (map_datetime_inv E a) (\<lambda>datetime.
        Inr (Figure None
               [(image_kind frame, vel a,
                 ''Bulk Velocity Flow '' @ datetime @ '' z='' @ height @ ''Mm'')])))),
      obj)"

definition Inversion_params_map ::
  "('a, 'w, 'x) ext \<Rightarrow> ('a, 'w) inversion \<Rightarrow> string option \<Rightarrow>
     (error + 'a figure) \<times> ('a, 'w) inversion" where
  "Inversion_params_map E obj frame =
     (bindE (attrs ''z'' obj) (\<lambda>a.
      bindE (map_height E a) (\<lambda>height.
      bindE (map_datetime_inv E a) (\<lambda>datetime.
        Inr (Figure
               (case frame of None \<Rightarrow> Some (datetime @ '' z='' @ height @ ''Mm'') | Some _ \<Rightarrow> None)
               [(image_kind frame, ne a, ''Electron Number Density''),
                (image_kind frame, temp a, ''Electron Temperature''),
                (image_kind frame, vel a, ''Bulk Velocity Flow'')])))),
      obj)"

text \<open>The operations of the class, and a call of one of them.\<close>

datatype inv_op =
    Op_str
  | Op_plot_ne
  | Op_plot_temp
  | Op_plot_vel
  | Op_plot_params
  | Op_ne_map "string option"
  | Op_temp_map "string option"
  | Op_vel_map "string option"
  | Op_params_map "string option"

datatype 'a inv_result = RStr string | RFig "'a figure"

fun Inversion_call ::
  "('a, 'w, 'x) ext \<Rightarrow> inv_op \<Rightarrow> ('a, 'w) inversion \<Rightarrow>
     (error + 'a inv_result) \<times> ('a, 'w) inversion" where
  "Inversion_call E Op_str obj = map_prod (map_sum id RStr) id (Inversion_str obj)"
| "Inversion_call E Op_plot_ne obj = map_prod (map_sum id RFig) id (Inversion_plot_ne E obj)"
| "Inversion_call E Op_plot_temp obj = map_prod (map_sum id RFig) id (Inversion_plot_temp E obj)"
| "Inversion_call E Op_plot_vel obj = map_prod (map_sum id RFig) id (Inversion_plot_vel E obj)"
| "Inversion_call E Op_plot_params obj =
     map_prod (map_sum id RFig) id (Inversion_plot_params E obj)"
| "Inversion_call E (Op_ne_map fr) obj =
     map_prod (map_sum id RFig) id (Inversion_ne_map E obj fr)"
| "Inversion_call E (Op_temp_map fr) obj =
     map_prod (map_sum id RFig) id (Inversion_temp_map E obj fr)"
| "Inversion_call E (Op_vel_map fr) obj =
     map_prod (map_sum id RFig) id (Inversion_vel_map E obj fr)"
| "Inversion_call E (Op_params_map fr) obj =
     map_prod (map_sum id RFig) id (Inversion_params_map E obj fr)"

text \<open>A run of calls on one object, each on the object the previous one left.\<close>

fun Inversion_calls ::
  "('a, 'w, 'x) ext \<Rightarrow> inv_op list \<Rightarrow> ('a, 'w) inversion \<Rightarrow> ('a, 'w) inversion" where
  "Inversion_calls E [] obj = obj"
| "Inversion_calls E (op # ops) obj = Inversion_calls E ops (snd (Inversion_call E op obj))"

text \<open>The stored arrays and the height axis of an object, when it has them.\<close>

definition stored :: "('a, 'w) inversion \<Rightarrow> ('a oval \<times> 'a oval \<times> 'a oval \<times> 'a oval \<times> 'a zval) option" where
  "stored obj = (case obj of Bare \<Rightarrow> None | Loaded a \<Rightarrow> Some (ne a, temp a, vel a, err a, z a))"

section \<open>A WCS stub and concrete objects\<close>

text \<open>
  A stub of the external libraries, for running the wrappers on concrete inputs. A stub
  WCS is its array shape, its number of axes and a longitude period: pixel \<open>(y, x)\<close>
  lies at longitude \<open>x\<close> (modulo the period, when there is one) and latitude \<open>y\<close>,
  and a coordinate is taken back to the pixel \<open>(latitude, longitude)\<close>.
\<close>

datatype stub_wcs = StubWCS (stub_shape: "nat list") (stub_naxis: nat) (stub_period: int)

datatype world = Sky int int | Num int | Spectral item

definition stub_lon :: "stub_wcs \<Rightarrow> int \<Rightarrow> int" where
  "stub_lon w x = (if stub_period w = 0 then x else x mod stub_period w)"

definition stub_world :: "stub_wcs \<Rightarrow> item list \<Rightarrow> world" where
  "stub_world w args =
     (case args of
        [IInt y, IInt x] \<Rightarrow> Sky (stub_lon w x) y
      | [it] \<Rightarrow> Spectral it
      | _ \<Rightarrow> Num 0)"

definition stub_index :: "stub_wcs \<Rightarrow> world \<Rightarrow> int list" where
  "stub_index w v = (case v of Sky lon lat \<Rightarrow> [lat, lon] | _ \<Rightarrow> [])"

definition stub_sky :: "world \<Rightarrow> world \<Rightarrow> world" where
  "stub_sky a b = (case (a, b) of (Num lon, Num lat) \<Rightarrow> Sky lon lat | _ \<Rightarrow> Num 0)"

definition stub_Tx :: "world \<Rightarrow> world" where
  "stub_Tx v = (case v of Sky lon lat \<Rightarrow> Num lon | _ \<Rightarrow> v)"

definition stub_Ty :: "world \<Rightarrow> world" where
  "stub_Ty v = (case v of Sky lon lat \<Rightarrow> Num lat | _ \<Rightarrow> v)"

definition stub_crop_dict :: header where
  "stub_crop_dict =
     [(''frame_dims'', PList [PInt 2, PInt 3]), (''x_min'', PInt 0), (''x_max'', PInt 2),
      (''y_min'', PInt 0), (''y_max'', PInt 1), (''angle'', PInt 7)]"

definition stub_slice :: "stub_wcs \<Rightarrow> item list \<Rightarrow> stub_wcs" where
  "stub_slice w its =
     StubWCS (drop (length (filter (\<lambda>it. \<not> is_slice it) its)) (stub_shape w))
       (stub_naxis w) (stub_period w)"

text \<open>
  The stub's FITS header refuses a list as a value and stores every other value under
  the key in upper case.
\<close>

definition upper_char :: "char \<Rightarrow> char" where
  "upper_char c =
     (if 97 \<le> (of_char c :: nat) \<and> (of_char c :: nat) \<le> 122
      then char_of (of_char c - 32 :: nat) else c)"

definition stub_fits_header_set :: "header \<Rightarrow> string \<Rightarrow> pyval \<Rightarrow> error + header" where
  "stub_fits_header_set h k v =
     (case v of
        PList _ \<Rightarrow> Inl (ValueError ''Illegal value'')
      | _ \<Rightarrow> Inr (AList.update (map upper_char k) v h))"

definition stub_ext :: "(nat, stub_wcs, world) ext" where
  "stub_ext =
     \<lparr> fits_open = (\<lambda>s. Inr (NDArray [2, 3, 4] 0, [])),
       zarr_open = (\<lambda>s. Inr (NDArray [2, 3, 4] 0, [])),
       WCS = (\<lambda>h. StubWCS [2, 3, 4] 3 0),
       zarr_header_to_wcs = (\<lambda>h n. StubWCS [2, 3, 4] 3 0),
       low_level_wcs = id,
       under_wcs = id,
       array_shape = stub_shape,
       naxis = stub_naxis,
       wcs_getitem = stub_slice,
       array_index_to_world = stub_world,
       world_to_array_index = stub_index,
       item1 = id,
       angstrom = id,
       arcsec = id,
       SkyCoord = stub_sky,
       Tx = stub_Tx,
       Ty = stub_Ty,
       q_value = id,
       np_round = id,
       x_minus = (\<lambda>a b. a),
       x_str = (\<lambda>v. ''x''),
       to_unit = (\<lambda>a u. a),
       vac_to_air = id,
       py_str = (\<lambda>v. ''[]''),
       np_round_hdr = id,
       rotate_crop_data = (\<lambda>d. (NDArray [1, 2] (payload d + 1), stub_crop_dict)),
       utils_reconstruct_full_frame = (\<lambda>cd d. NDArray [2, 3] (payload d + 2)),
       h5_open = (\<lambda>s. Inr []),
       iterate = (\<lambda>v. []),
       index_array = (\<lambda>a i. Num 0),
       fits_header_set = stub_fits_header_set,
       fits_data_set = (\<lambda>h a. h) \<rparr>"

text \<open>An in-memory container with a two-dimensional array and a header.\<close>

definition alt_header :: header where
  "alt_header =
     [(''time_obs'', PStr ''09:15:00''), (''date_obs'', PStr ''2014-09-06''),
      (''crval'', PList [PInt 8542, PInt 5, PInt 9]),
      (''dimensions'', PList [PInt 11, PInt 2, PInt 8]),
      (''element'', PStr ''Ca II'')]"

definition container :: "header \<Rightarrow> nat objdict" where
  "container h = [(''data'', OArray (NDArray [2, 8] 0)), (''header'', OHeader h)]"

definition args_of :: "nat objdict \<Rightarrow> stub_wcs option \<Rightarrow> (nat, stub_wcs) crisp_args" where
  "args_of d w =
     \<lparr> a_filename = FObjDict d, a_wcs = w, a_uncertainty = None, a_mask = None, a_nonu = False \<rparr>"

definition wrapper :: "header \<Rightarrow> stub_wcs option \<Rightarrow> (nat, stub_wcs) crisp" where
  "wrapper h w =
     \<lparr> file_obj = ObjDict (container h), wcs = w, nonu = False, uncertainty = None, mask_attr = None,
       rotate_attr = False, ind = None, full_frame = None, rot_data = None \<rparr>"

text \<open>An unsliced three-dimensional cube with its WCS.\<close>

definition cube :: "(nat, stub_wcs) crisp" where
  "cube =
     \<lparr> file_obj = ObjDict [(''data'', OArray (NDArray [3, 2, 8] 0)),
                           (''header'', OHeader alt_header)],
       wcs = Some (StubWCS [3, 2, 8] 3 0), nonu = False, uncertainty = None, mask_attr = None,
       rotate_attr = False, ind = None, full_frame = None, rot_data = None \<rparr>"

text \<open>The arguments that name a Zarr store, and the wrapper constructed from them.\<close>

definition zarr_args :: "(nat, stub_wcs) crisp_args" where
  "zarr_args =
     \<lparr> a_filename = FStr ''obs.zarr'', a_wcs = None, a_uncertainty = None, a_mask = None,
       a_nonu = False \<rparr>"

definition zarr_wrapper :: "(nat, stub_wcs) crisp" where
  "zarr_wrapper =
     \<lparr> file_obj = ObjDict [(''data'', OArray (NDArray [2, 3, 4] 0)), (''header'', OAttrs [])],
       wcs = Some (StubWCS [2, 3, 4] 3 0), nonu = False, uncertainty = None, mask_attr = None,
       rotate_attr = False, ind = None, full_frame = None, rot_data = None \<rparr>"

text \<open>The wrapper constructed from a FITS file.\<close>

definition fits_wrapper :: "(nat, stub_wcs) crisp" where
  "fits_wrapper =
     \<lparr> file_obj = HDU (NDArray [2, 3, 4] 0) [], wcs = Some (StubWCS [2, 3, 4] 3 0),
       nonu = False, uncertainty = None, mask_attr = None, rotate_attr = False, ind = None,
       full_frame = None, rot_data = None \<rparr>"

text \<open>An inversion result sliced at one height.\<close>

definition inversion_example :: "(nat, stub_wcs) inversion" where
  "inversion_example =
     Loaded \<lparr> ne = OArray (NDArray [2, 2] 1), temp = OArray (NDArray [2, 2] 2),
              vel = OArray (NDArray [2, 2] 3), err = OArray (NDArray [3, 2, 2] 4),
              inv_wcs = Some (StubWCS [2, 2] 2 0), z = ZObj (Some (OArray (NDArray [4] 5))),
              inv_header = None, inv_ind = Some (Single (IInt 1)) \<rparr>"

section \<open>Theorems\<close>

lemma bindE_Inr: "bindE (Inr v) f = f v"
  by (simp add: bindE_def)

subsection \<open>Construction\<close>

lemma mapE_Inr: "mapE f xs = Inr ys \<Longrightarrow> length ys = length xs \<and> (\<forall>i < length xs. f (xs ! i) = Inr (ys ! i))"
proof (induction xs arbitrary: ys)
  case Nil
  then show ?case by simp
next
  case (Cons x xs)
  then show ?case
    by (auto split: sum.splits simp: nth_Cons split: nat.splits)
qed

lemma mapE_Inl: "mapE f xs = Inl e \<Longrightarrow> \<exists>x \<in> set xs. f x = Inl e"
  by (induction xs) (auto split: sum.splits)

lemma CRISP_init_container:
  assumes "''angle'' \<notin> fst ` set h"
  shows "CRISP_init stub_ext (args_of (container h) w) = Inr (wrapper h w)"
  using assms
  by (simp add: CRISP_init_def args_of_def container_def wrapper_def bindE_def in_filename_def
      file_header_def container_header_def crop_keys_def)

lemma alt_header_no_angle: "''angle'' \<notin> fst ` set alt_header"
  by (simp add: alt_header_def)

text \<open>
  Claim C8. Constructing a \<open>CRISPSequence\<close> from a list of \<open>n\<close> parameter dicts gives
  a list of exactly \<open>n\<close> wrappers, the \<open>i\<close>-th being what \<open>CRISP\<close> constructs from the
  \<open>i\<close>-th dict, in the input order. The constructor fails only when the construction
  of one of the elements fails, and then with that element's exception.
\<close>

theorem CRISPSequence_init_ordered:
  "(case CRISPSequence_init E files of
      Inr s \<Rightarrow>
        length (seq_list s) = length files \<and>
        (\<forall>i < length files. CRISP_init E (files ! i) = Inr (seq_list s ! i))
    | Inl e \<Rightarrow> \<exists>f \<in> set files. CRISP_init E f = Inl e)"
proof (cases "mapE (CRISP_init E) files")
  case (Inl e)
  then show ?thesis
    using mapE_Inl [OF Inl] by (simp add: CRISPSequence_init_def)
next
  case (Inr cs)
  then show ?thesis
    using mapE_Inr [OF Inr] by (simp add: CRISPSequence_init_def)
qed

theorem CRISPSequence_init_ordered_witness:
  "CRISPSequence_init stub_ext
     [args_of (container alt_header) None, args_of (container []) (Some (StubWCS [2, 8] 3 0))] =
   Inr \<lparr> seq_list = [wrapper alt_header None, wrapper [] (Some (StubWCS [2, 8] 3 0))] \<rparr>"
  using CRISPSequence_init_ordered [where E = stub_ext and files =
     "[args_of (container alt_header) None, args_of (container []) (Some (StubWCS [2, 8] 3 0))]"]
  by (simp add: CRISPSequence_init_def CRISP_init_container alt_header_no_angle)

text \<open>
  \<open>CRISP\<close> rejects a first argument that is neither a string nor a container, and a
  string that names neither a FITS nor a Zarr file.
\<close>

lemma CRISP_init_unsupported:
  assumes "a_filename a = FOther \<or>
           (\<exists>s. a_filename a = FStr s \<and> \<not> contains ''.fits'' s \<and> \<not> contains ''.zarr'' s)"
  shows "CRISP_init E a = Inl (NotImplementedError ''m8 y?'')"
  using assms by (auto simp: CRISP_init_def bindE_def)

text \<open>
  With the argument \<open>wcs\<close> left as \<open>None\<close>: for an in-memory container that has no
  key named \<open>.fits\<close> or \<open>.zarr\<close>, the constructed object's \<open>wcs\<close> is \<open>None\<close>
  (and the construction fails only when the container's header cannot be read); for a
  file path, every constructed object has a WCS; any other type is rejected.
\<close>

lemma CRISP_init_wcs_None:
  assumes "a_wcs a = None"
  shows "case a_filename a of
           FObjDict d \<Rightarrow>
             (''.fits'' \<notin> fst ` set d \<and> ''.zarr'' \<notin> fst ` set d \<longrightarrow>
                (case CRISP_init E a of
                   Inr c \<Rightarrow> wcs c = None
                 | Inl e \<Rightarrow> container_header d = Inl e))
         | FStr s \<Rightarrow> (\<forall>c. CRISP_init E a = Inr c \<longrightarrow> wcs c \<noteq> None)
         | FOther \<Rightarrow> CRISP_init E a = Inl (NotImplementedError ''m8 y?'')"
  using assms
  by (cases "a_filename a")
    (auto simp: CRISP_init_def bindE_def in_filename_def file_header_def
      split: sum.splits if_splits)

text \<open>
  Claim C9. A \<open>CRISP\<close> object constructed from an in-memory container with \<open>wcs\<close> left
  as \<open>None\<close> should have \<open>wcs = None\<close>: no WCS is built from the container's header.
  The constructor's second dispatch tests \<open>".fits" in filename\<close> without the
  \<open>isinstance(filename, str)\<close> that guards the same test in its first dispatch, so
  on a container the test is a key test: a container that has a key named \<open>.fits\<close>
  gets a WCS built from its header.
\<close>

theorem CRISP_init_objdict_fits_key:
  "map_sum id wcs (CRISP_init stub_ext (args_of ((''.fits'', OOther) # container alt_header) None)) =
     Inr (Some (StubWCS [2, 3, 4] 3 0))"
  by (simp add: CRISP_init_def args_of_def container_def bindE_def in_filename_def
      file_header_def container_header_def crop_keys_def stub_ext_def)

theorem CRISP_init_objdict_fits_key_witness:
  "\<exists>c. CRISP_init stub_ext (args_of ((''.fits'', OOther) # container alt_header) None) = Inr c \<and>
       wcs c \<noteq> None"
  using CRISP_init_objdict_fits_key
  by (cases "CRISP_init stub_ext (args_of ((''.fits'', OOther) # container alt_header) None)")
    simp_all

subsection \<open>The sequence delegates to its first element\<close>

text \<open>
  Claim C10. On a non-empty sequence, \<open>to_lonlat\<close> and \<open>from_lonlat\<close> return what the
  same method returns on element 0 (with the default flags), so two sequences with the
  same first element give the same results whatever their other elements are.
\<close>

theorem CRISPSequence_lonlat_first:
  assumes "seq_list s \<noteq> []"
  shows "CRISPSequence_to_lonlat E s y x = CRISP_to_lonlat E (hd (seq_list s)) y x False False \<and>
         CRISPSequence_from_lonlat E s lon lat = CRISP_from_lonlat E (hd (seq_list s)) lon lat \<and>
         (\<forall>s'. seq_list s' \<noteq> [] \<and> hd (seq_list s') = hd (seq_list s) \<longrightarrow>
            CRISPSequence_to_lonlat E s' y x = CRISPSequence_to_lonlat E s y x \<and>
            CRISPSequence_from_lonlat E s' lon lat = CRISPSequence_from_lonlat E s lon lat)"
proof -
  have first: "\<And>t :: ('a, 'b) crisp_sequence. seq_list t \<noteq> [] \<Longrightarrow> py_index (seq_list t) 0 = Inr (hd (seq_list t))"
    by (simp add: py_index_def hd_conv_nth)
  show ?thesis
    using assms first
    by (simp add: CRISPSequence_to_lonlat_def CRISPSequence_from_lonlat_def bindE_def)
qed

theorem CRISPSequence_lonlat_first_witness:
  "CRISPSequence_to_lonlat stub_ext
     \<lparr> seq_list = [wrapper [] (Some (StubWCS [2, 8] 2 0)), wrapper alt_header None] \<rparr> 1 5 =
     Inr (LPair (Num 5) (Num 1)) \<and>
   CRISPSequence_from_lonlat stub_ext
     \<lparr> seq_list = [wrapper [] (Some (StubWCS [2, 8] 2 0)), wrapper alt_header None] \<rparr>
     (Num 5) (Num 1) = Inr [1, 5]"
  using CRISPSequence_lonlat_first [where E = stub_ext and y = 1 and x = 5
      and lon = "Num 5" and lat = "Num 1"
      and s = "\<lparr> seq_list = [wrapper [] (Some (StubWCS [2, 8] 2 0)), wrapper alt_header None] \<rparr>"]
  by (simp add: CRISP_to_lonlat_def CRISP_from_lonlat_def lonlat_wcs_def get_wcs_def rank_def
      bindE_def wrapper_def stub_ext_def stub_world_def stub_lon_def stub_Tx_def stub_Ty_def
      stub_sky_def stub_index_def)

subsection \<open>The inversion result\<close>

text \<open>
  Claim C7. Every operation of \<open>Inversion\<close> (\<open>__str__\<close>, the four \<open>plot_*\<close> and the four
  \<open>*_map\<close> methods), and every run of them, leaves the stored arrays \<open>ne\<close>, \<open>temp\<close>,
  \<open>vel\<close>, \<open>err\<close> and the height axis \<open>z\<close> as they were, whether the call returns or
  raises.
\<close>

theorem Inversion_read_only:
  "stored (snd (Inversion_call E op obj)) = stored obj \<and>
   stored (Inversion_calls E ops obj) = stored obj"
proof -
  have one: "snd (Inversion_call E op' obj') = obj'" for op' and obj' :: "('a, 'b) inversion"
    by (cases op')
      (simp_all add: Inversion_str_def Inversion_plot_ne_def Inversion_plot_temp_def
        Inversion_plot_vel_def Inversion_plot_params_def Inversion_ne_map_def
        Inversion_temp_map_def Inversion_vel_map_def Inversion_params_map_def)
  have many: "Inversion_calls E ops obj = obj"
    by (induction ops arbitrary: obj) (simp_all add: one)
  show ?thesis
    by (simp add: one many)
qed

theorem Inversion_read_only_witness:
  "stored (snd (Inversion_call stub_ext (Op_ne_map None) inversion_example)) =
     Some (OArray (NDArray [2, 2] 1), OArray (NDArray [2, 2] 2), OArray (NDArray [2, 2] 3),
           OArray (NDArray [3, 2, 2] 4), ZObj (Some (OArray (NDArray [4] 5)))) \<and>
   fst (Inversion_call stub_ext (Op_ne_map None) inversion_example) =
     Inr (RFig (Figure None
       [(ImageWCS, OArray (NDArray [2, 2] 1), ''Electron Number Density  z=xMm'')]))"
  using Inversion_read_only [where E = stub_ext and op = "Op_ne_map None"
      and obj = inversion_example and ops = "[]"]
  by (simp add: stored_def inversion_example_def Inversion_ne_map_def attrs_def bindE_def
      map_height_def map_datetime_inv_def image_kind_def stub_ext_def)

text \<open>
  Claim C2. \<open>CRISP\<close> rejects a first argument of an unsupported type (and a string that
  names neither a FITS nor a Zarr file) with \<open>NotImplementedError\<close>: lemma
  \<open>CRISP_init_unsupported\<close>. \<open>Inversion\<close> does not: its type dispatch has no final
  branch, so for an argument that is neither a string nor an \<open>ObjDict\<close> the
  constructor returns an object with none of its attributes.
\<close>

theorem Inversion_init_unsupported:
  "Inversion_init E FOther w zarg hdr = Inr Bare"
  by (simp add: Inversion_init_def)

subsection \<open>Dispatch on the rank of the WCS\<close>









subsection \<open>Index to world and back\<close>

text \<open>
  Claim C1, as amended. For a wrapper whose WCS has a two-dimensional array shape, and a
  pixel pair \<open>(y, x)\<close> at which the WCS itself is invertible (its
  \<open>world_to_array_index\<close>, given the coordinate rebuilt from the arcsecond values of
  what its \<open>array_index_to_world\<close> gives for \<open>(y, x)\<close>, returns \<open>(y, x)\<close>),
  \<open>from_lonlat\<close> on the pair returned by \<open>to_lonlat(y, x)\<close> returns \<open>(y, x)\<close>. The
  wrappers query the same WCS in both directions and pass the pair through in the same
  order; the round trip is as good as the WCS they are given.
\<close>
theorem lonlat_round_trip:
  assumes "wcs c = Some w" and "rank E w = 2"
    and "world_to_array_index E w
           (SkyCoord E (arcsec E (q_value E (Tx E (array_index_to_world E w [IInt y, IInt x]))))
                       (arcsec E (q_value E (Ty E (array_index_to_world E w [IInt y, IInt x]))))) =
         [y, x]"
  shows "\<exists>lon lat. CRISP_to_lonlat E c y x False False = Inr (LPair lon lat) \<and>
                   CRISP_from_lonlat E c lon lat = Inr [y, x]"
proof -
  have sel: "lonlat_wcs E c = Inr w"
    using assms(1,2) by (simp add: lonlat_wcs_def get_wcs_def bindE_Inr)
  have to: "CRISP_to_lonlat E c y x False False =
      Inr (LPair (q_value E (Tx E (array_index_to_world E w [IInt y, IInt x])))
                 (q_value E (Ty E (array_index_to_world E w [IInt y, IInt x]))))"
    by (simp add: CRISP_to_lonlat_def sel bindE_Inr Let_def)
  have "CRISP_from_lonlat E c
          (q_value E (Tx E (array_index_to_world E w [IInt y, IInt x])))
          (q_value E (Ty E (array_index_to_world E w [IInt y, IInt x]))) = Inr [y, x]"
    using assms(3) by (simp add: CRISP_from_lonlat_def sel bindE_Inr Let_def)
  with to show ?thesis by blast
qed

lemmas stub_eval = CRISP_to_lonlat_def CRISP_from_lonlat_def lonlat_wcs_def get_wcs_def rank_def
      bindE_def wrapper_def stub_ext_def stub_world_def stub_lon_def stub_Tx_def stub_Ty_def
      stub_sky_def stub_index_def

theorem lonlat_round_trip_witness:
  "CRISP_to_lonlat stub_ext (wrapper [] (Some (StubWCS [2, 8] 2 0))) 1 5 False False =
     Inr (LPair (Num 5) (Num 1)) \<and>
   CRISP_from_lonlat stub_ext (wrapper [] (Some (StubWCS [2, 8] 2 0))) (Num 5) (Num 1) =
     Inr [1, 5]"
  using lonlat_round_trip [where E = stub_ext and c = "wrapper [] (Some (StubWCS [2, 8] 2 0))"
      and w = "StubWCS [2, 8] 2 0" and y = 1 and x = 5]
  by (simp add: stub_eval)

text \<open>
  Claim C1 as stated fails on a WCS whose longitude is periodic over the array: with a
  period of 4 pixels on an array of width 8, the in-range pixel \<open>(0, 5)\<close> goes to
  longitude 1 and comes back as \<open>(0, 1)\<close>.
\<close>
theorem lonlat_round_trip_wrapping_stub:
  "CRISP_to_lonlat stub_ext (wrapper [] (Some (StubWCS [2, 8] 2 4))) 0 5 False False =
     Inr (LPair (Num 1) (Num 0)) \<and>
   CRISP_from_lonlat stub_ext (wrapper [] (Some (StubWCS [2, 8] 2 4))) (Num 1) (Num 0) =
     Inr [0, 1] \<and>
   [0, 1] \<noteq> [0, 5 :: int]"
  by (simp add: stub_eval)

subsection \<open>What \<open>rotate_crop\<close> and \<open>reconstruct_full_frame\<close> change\<close>

text \<open>
  Neither method touches \<open>uncertainty\<close>, \<open>mask\<close> or \<open>wcs\<close>, whatever holds the file
  and whether the call returns or raises.
\<close>

lemma rotate_crop_attrs:
  "uncertainty (snd (CRISP_rotate_crop E c False)) = uncertainty c \<and>
   mask_attr (snd (CRISP_rotate_crop E c False)) = mask_attr c \<and>
   wcs (snd (CRISP_rotate_crop E c False)) = wcs c"
  by (simp add: CRISP_rotate_crop_def Let_def split: sum.splits prod.splits option.splits)

lemma reconstruct_attrs:
  "uncertainty (snd (CRISP_reconstruct_full_frame E c False)) = uncertainty c \<and>
   mask_attr (snd (CRISP_reconstruct_full_frame E c False)) = mask_attr c \<and>
   wcs (snd (CRISP_reconstruct_full_frame E c False)) = wcs c"
  by (simp add: CRISP_reconstruct_full_frame_def split: sum.splits)

text \<open>
  A container whose header is a plain dict: every write of the loop succeeds, and the
  header afterwards is the old one overwritten by the entries the helper returned,
  whatever their keys are.
\<close>

lemma patch_header_plain:
  "map_of dd ''header'' = Some (OHeader h) \<Longrightarrow>
   \<exists>dd' h'. patch_header E cd (ObjDict dd) = (None, ObjDict dd') \<and>
            map_of dd' ''header'' = Some (OHeader h') \<and>
            map_of dd' ''data'' = map_of dd ''data'' \<and>
            map_of h' = map_of h ++ map_of (rev cd)"
proof (induction cd arbitrary: dd h)
  case Nil
  then show ?case by simp
next
  case (Cons kv kvs)
  obtain k v where kv: "kv = (k, v)" by (cases kv)
  let ?d1 = "AList.update ''header'' (OHeader (AList.update k v h)) dd"
  have step: "header_setitem E (ObjDict dd) k v = Inr (ObjDict ?d1)"
    using Cons.prems by (simp add: header_setitem_def)
  have "map_of ?d1 ''header'' = Some (OHeader (AList.update k v h))"
    by (simp add: update_conv')
  from Cons.IH [OF this] obtain dd' h' where
    p: "patch_header E kvs (ObjDict ?d1) = (None, ObjDict dd')"
    and h: "map_of dd' ''header'' = Some (OHeader h')"
    and d: "map_of dd' ''data'' = map_of ?d1 ''data''"
    and m: "map_of h' = map_of (AList.update k v h) ++ map_of (rev kvs)"
    by blast
  have "map_of (AList.update k v h) ++ map_of (rev kvs) = map_of h ++ map_of (rev (kv # kvs))"
    by (simp add: kv update_conv' map_add_def fun_eq_iff split: option.splits)
  with p h d m show ?case
    by (simp add: kv step update_conv')
qed

lemma rotate_crop_plain:
  assumes "file_obj c = ObjDict dd" and "map_of dd ''data'' = Some (OArray d)"
    and "map_of dd ''header'' = Some (OHeader h)"
  shows "\<exists>c' h'. CRISP_rotate_crop E c False = (Inr None, c') \<and>
           CRISP_data c' = Inr (fst (rotate_crop_data E d)) \<and> full_frame c' = Some d \<and>
           rotate_attr c' \<and> CRISP_header c' = Inr h' \<and>
           map_of h' = map_of h ++ map_of (rev (snd (rotate_crop_data E d)))"
proof -
  from patch_header_plain [OF assms(3), of E "snd (rotate_crop_data E d)"] obtain dd' h' where
    p: "patch_header E (snd (rotate_crop_data E d)) (ObjDict dd) = (None, ObjDict dd')"
    and h': "map_of dd' ''header'' = Some (OHeader h')"
    and m: "map_of h' = map_of h ++ map_of (rev (snd (rotate_crop_data E d)))"
    by blast
  let ?c' = "c\<lparr> full_frame := Some d,
                 file_obj := ObjDict (AList.update ''data'' (OArray (fst (rotate_crop_data E d))) dd'),
                 rotate_attr := True \<rparr>"
  have dat0: "CRISP_data c = Inr d"
    using assms(1,2) by (simp add: CRISP_data_def)
  have run: "CRISP_rotate_crop E c False = (Inr None, ?c')"
    using dat0 assms(1) p by (simp add: CRISP_rotate_crop_def Let_def data_setattr_def)
  have dat: "CRISP_data ?c' = Inr (fst (rotate_crop_data E d))"
    by (simp add: CRISP_data_def update_conv')
  have hdr: "CRISP_header ?c' = Inr h'"
    using h' by (simp add: CRISP_header_def file_header_def container_header_def update_conv')
  show ?thesis
    using run dat hdr m by (intro exI [of _ ?c'] exI [of _ h']) simp
qed

text \<open>
  The keys the loop writes are the helper's: when its dict holds only the
  crop-metadata keys, every header entry under another key is as it was.
\<close>

lemma rotate_crop_plain_other_keys:
  assumes "file_obj c = ObjDict dd" and "map_of dd ''data'' = Some (OArray d)"
    and "map_of dd ''header'' = Some (OHeader h)"
    and "fst ` set (snd (rotate_crop_data E d)) \<subseteq> set crop_keys"
  shows "\<exists>h'. CRISP_header (snd (CRISP_rotate_crop E c False)) = Inr h' \<and>
              (\<forall>k. k \<notin> set crop_keys \<longrightarrow> map_of h' k = map_of h k)"
proof -
  from rotate_crop_plain [OF assms(1,2,3), of E] obtain c' h' where
    run: "CRISP_rotate_crop E c False = (Inr None, c')" and hdr: "CRISP_header c' = Inr h'"
    and m: "map_of h' = map_of h ++ map_of (rev (snd (rotate_crop_data E d)))"
    by blast
  have "map_of h' k = map_of h k" if "k \<notin> set crop_keys" for k
  proof -
    from that assms(4) have "k \<notin> fst ` set (rev (snd (rotate_crop_data E d)))"
      by auto
    then have "map_of (rev (snd (rotate_crop_data E d))) k = None"
      by (simp add: map_of_eq_None_iff)
    then show ?thesis by (simp add: m map_add_def)
  qed
  with run hdr show ?thesis by simp
qed

text \<open>
  A container whose header is the attributes of a Zarr array opened read-only: the
  first write of the loop raises. \<open>full_frame\<close> has been assigned by then; the stored
  array and the flag \<open>rotate\<close> have not.
\<close>

lemma rotate_crop_read_only:
  assumes "file_obj c = ObjDict dd" and "map_of dd ''data'' = Some (OArray d)"
    and "map_of dd ''header'' = Some (OAttrs h)"
    and "snd (rotate_crop_data E d) \<noteq> []"
  shows "CRISP_rotate_crop E c False =
           (Inl (PermissionError ''attributes are read-only''), c\<lparr> full_frame := Some d \<rparr>)"
proof -
  obtain k v kvs where cd: "snd (rotate_crop_data E d) = (k, v) # kvs"
    using assms(4) by (cases "snd (rotate_crop_data E d)") auto
  have dat0: "CRISP_data c = Inr d"
    using assms(1,2) by (simp add: CRISP_data_def)
  have p: "patch_header E (snd (rotate_crop_data E d)) (ObjDict dd) =
             (Some (PermissionError ''attributes are read-only''), ObjDict dd)"
    using assms(3) by (simp add: cd header_setitem_def)
  have "c\<lparr> full_frame := Some d, file_obj := ObjDict dd \<rparr> = c\<lparr> full_frame := Some d \<rparr>"
    using assms(1) by (cases c) simp
  then show ?thesis
    using dat0 assms(1) p by (simp add: CRISP_rotate_crop_def Let_def)
qed

text \<open>Every wrapper that the constructor makes from a Zarr store is of that kind.\<close>

lemma CRISP_init_zarr_read_only:
  assumes "CRISP_init E a = Inr c" and "a_filename a = FStr s"
    and "\<not> contains ''.fits'' s" and "contains ''.zarr'' s"
  shows "\<exists>d h. zarr_open E s = Inr (d, h) \<and>
               file_obj c = ObjDict [(''data'', OArray d), (''header'', OAttrs h)]"
  using assms
  by (cases "zarr_open E s")
    (auto simp: CRISP_init_def bindE_def zarr_store_def split: sum.splits if_splits)

text \<open>
  An HDU: the writes are the FITS library's. When it refuses the first entry, the call
  raises what the library raised and the stored array is not replaced.
\<close>

lemma rotate_crop_fits_refused:
  assumes "file_obj c = HDU d h" and "snd (rotate_crop_data E d) = (k, v) # kvs"
    and "fits_header_set E h k v = Inl e"
  shows "CRISP_rotate_crop E c False = (Inl e, c\<lparr> full_frame := Some d \<rparr>)"
proof -
  have dat0: "CRISP_data c = Inr d"
    using assms(1) by (simp add: CRISP_data_def)
  have p: "patch_header E (snd (rotate_crop_data E d)) (HDU d h) = (Some e, HDU d h)"
    using assms(2,3) by (simp add: header_setitem_def)
  have "c\<lparr> full_frame := Some d, file_obj := HDU d h \<rparr> = c\<lparr> full_frame := Some d \<rparr>"
    using assms(1) by (cases c) simp
  then show ?thesis
    using dat0 assms(1) p by (simp add: CRISP_rotate_crop_def Let_def)
qed

lemma rotate_crop_fits_example:
  "CRISP_init stub_ext (zarr_args\<lparr> a_filename := FStr ''obs.fits'' \<rparr>) = Inr fits_wrapper \<and>
   CRISP_rotate_crop stub_ext fits_wrapper False =
     (Inl (ValueError ''Illegal value''),
      fits_wrapper\<lparr> full_frame := Some (NDArray [2, 3, 4] 0) \<rparr>)"
proof -
  have init: "CRISP_init stub_ext (zarr_args\<lparr> a_filename := FStr ''obs.fits'' \<rparr>) =
                Inr fits_wrapper"
    by (simp add: CRISP_init_def zarr_args_def fits_wrapper_def fits_hdu_def bindE_def
        in_filename_def file_header_def crop_keys_def stub_ext_def)
  have f: "file_obj fits_wrapper = HDU (NDArray [2, 3, 4] 0) []"
    by (simp add: fits_wrapper_def)
  have cd: "snd (rotate_crop_data stub_ext (NDArray [2, 3, 4] 0)) =
              (''frame_dims'', PList [PInt 2, PInt 3]) #
              [(''x_min'', PInt 0), (''x_max'', PInt 2), (''y_min'', PInt 0), (''y_max'', PInt 1),
               (''angle'', PInt 7)]"
    by (simp add: stub_ext_def stub_crop_dict_def)
  have w: "fits_header_set stub_ext [] ''frame_dims'' (PList [PInt 2, PInt 3]) =
             Inl (ValueError ''Illegal value'')"
    by (simp add: stub_ext_def stub_fits_header_set_def)
  from init rotate_crop_fits_refused [OF f cd w] show ?thesis by simp
qed

text \<open>
  \<open>reconstruct_full_frame\<close> writes the array only: in a container the header is as it
  was, in an HDU it is what the library makes of it when the array is set.
\<close>

lemma reconstruct_header_container:
  "file_obj c = ObjDict dd \<Longrightarrow>
   CRISP_header (snd (CRISP_reconstruct_full_frame E c False)) = CRISP_header c"
  by (simp add: CRISP_reconstruct_full_frame_def CRISP_header_def file_header_def
      container_header_def data_setattr_def update_conv' split: sum.splits)

lemma hdr_get_present: "k \<in> fst ` set h \<Longrightarrow> hdr_get h k = Inr (the (map_of h k))"
  by (cases "map_of h k") (auto simp: hdr_get_def map_of_eq_None_iff)

lemma crop_dict_read:
  "(\<forall>k \<in> set ks. k \<in> fst ` set h) \<Longrightarrow>
   mapE (\<lambda>k. map_sum id (Pair k) (hdr_get h k)) ks = Inr (map (\<lambda>k. (k, the (map_of h k))) ks)"
  by (induction ks) (simp_all add: hdr_get_present)

lemma data_setattr_data: "file_obj c = data_setattr E f a \<Longrightarrow> CRISP_data c = Inr a"
  by (cases f) (simp_all add: CRISP_data_def data_setattr_def update_conv')

lemma reconstruct_run:
  assumes "CRISP_data c = Inr d" and "CRISP_header c = Inr h"
    and "\<forall>k \<in> set crop_keys. k \<in> fst ` set h"
  shows "fst (CRISP_reconstruct_full_frame E c False) = Inr None \<and>
         rot_data (snd (CRISP_reconstruct_full_frame E c False)) = Some d \<and>
         \<not> rotate_attr (snd (CRISP_reconstruct_full_frame E c False)) \<and>
         CRISP_data (snd (CRISP_reconstruct_full_frame E c False)) =
           Inr (utils_reconstruct_full_frame E (map (\<lambda>k. (k, the (map_of h k))) crop_keys) d)"
proof -
  from assms(3) have fd: "''frame_dims'' \<in> fst ` set h"
    by (simp add: crop_keys_def)
  show ?thesis
    using assms(1,2) fd crop_dict_read [OF assms(3)]
    by (simp add: CRISP_reconstruct_full_frame_def bindE_Inr data_setattr_data)
qed

lemma wrapper_data: "CRISP_data (wrapper h w) = Inr (NDArray [2, 8] 0)"
  by (simp add: CRISP_data_def wrapper_def container_def)

lemma wrapper_header: "CRISP_header (wrapper h w) = Inr h"
  by (simp add: CRISP_header_def file_header_def container_header_def wrapper_def container_def)

lemma rotate_crop_plain_example:
  "fst (CRISP_rotate_crop stub_ext (wrapper alt_header None) False) = Inr None \<and>
   CRISP_data (snd (CRISP_rotate_crop stub_ext (wrapper alt_header None) False)) =
     Inr (NDArray [1, 2] 1) \<and>
   full_frame (snd (CRISP_rotate_crop stub_ext (wrapper alt_header None) False)) =
     Some (NDArray [2, 8] 0) \<and>
   CRISP_header (snd (CRISP_reconstruct_full_frame stub_ext (wrapper alt_header None) False)) =
     Inr alt_header"
proof -
  have r: "rotate_crop_data stub_ext d = (NDArray [1, 2] (payload d + 1), stub_crop_dict)" for d
    by (simp add: stub_ext_def)
  have f: "file_obj (wrapper alt_header None) = ObjDict (container alt_header)"
    by (simp add: wrapper_def)
  have d: "map_of (container alt_header) ''data'' = Some (OArray (NDArray [2, 8] 0))"
    and h: "map_of (container alt_header) ''header'' = Some (OHeader alt_header)"
    by (simp_all add: container_def)
  from rotate_crop_plain [OF f d h, of stub_ext]
    reconstruct_header_container [OF f, of stub_ext]
  show ?thesis
    using wrapper_header [of alt_header None] by (auto simp: r)
qed

text \<open>
  Claim C3. On every observation wrapper, \<open>rotate_crop\<close> with \<open>sep=False\<close> should
  replace the stored array by the rotated and cropped one, keep the original in
  \<open>full_frame\<close> and patch the crop-metadata keys of the header, as its docstring also
  says. It does so on a container with a plain dict header (lemma
  \<open>rotate_crop_plain\<close>). The constructor opens a Zarr store with \<open>mode="r"\<close> and keeps
  the array's attributes as the header, and \<open>rotate_crop\<close> assigns into that header:
  on the wrapper made from a Zarr store the call raises \<open>PermissionError\<close> at the
  first key, after \<open>full_frame\<close> has been assigned, and the stored array is still the
  original.
\<close>

theorem rotate_crop_zarr_read_only:
  "CRISP_init stub_ext zarr_args = Inr zarr_wrapper \<and>
   CRISP_rotate_crop stub_ext zarr_wrapper False =
     (Inl (PermissionError ''attributes are read-only''),
      zarr_wrapper\<lparr> full_frame := Some (NDArray [2, 3, 4] 0) \<rparr>) \<and>
   CRISP_data (snd (CRISP_rotate_crop stub_ext zarr_wrapper False)) = Inr (NDArray [2, 3, 4] 0)"
proof -
  have init: "CRISP_init stub_ext zarr_args = Inr zarr_wrapper"
    by (simp add: CRISP_init_def zarr_args_def zarr_wrapper_def zarr_store_def bindE_def
        in_filename_def file_header_def container_header_def crop_keys_def stub_ext_def)
  have f: "file_obj zarr_wrapper =
             ObjDict [(''data'', OArray (NDArray [2, 3, 4] 0)), (''header'', OAttrs [])]"
    by (simp add: zarr_wrapper_def)
  have cd: "snd (rotate_crop_data stub_ext (NDArray [2, 3, 4] 0)) \<noteq> []"
    by (simp add: stub_ext_def stub_crop_dict_def)
  have run: "CRISP_rotate_crop stub_ext zarr_wrapper False =
               (Inl (PermissionError ''attributes are read-only''),
                zarr_wrapper\<lparr> full_frame := Some (NDArray [2, 3, 4] 0) \<rparr>)"
    by (rule rotate_crop_read_only [OF f _ _ cd]) simp_all
  have "CRISP_data (zarr_wrapper\<lparr> full_frame := Some (NDArray [2, 3, 4] 0) \<rparr>) =
          Inr (NDArray [2, 3, 4] 0)"
    by (simp add: CRISP_data_def zarr_wrapper_def)
  with init run show ?thesis by simp
qed

theorem rotate_crop_zarr_read_only_witness:
  "isl (fst (CRISP_rotate_crop stub_ext zarr_wrapper False)) \<and>
   rotate_attr (snd (CRISP_rotate_crop stub_ext zarr_wrapper False)) = False"
  using rotate_crop_zarr_read_only by (simp add: zarr_wrapper_def)

subsection \<open>Rejections in the plotting methods\<close>

text \<open>
  The rejections the plotting methods do make. On a wrapper with data: \<open>plot_spectrum\<close> raises its \<open>IndexError\<close> whenever
  the data is not one-dimensional; \<open>stokes_map\<close> on two-dimensional data raises whenever
  the requested Stokes string is not exactly one of I, Q, U, V, and the exception is the
  descriptive \<open>ValueError\<close> whenever the title, frame and extent were computed;
  \<open>_plot_stokes\<close> on two-dimensional data raises whenever the request is not \<open>all\<close>
  and holds a character that is not one of I, Q, U, V, and the exception is the
  descriptive \<open>ValueError\<close> whenever the title parts were read.
\<close>
lemma plotting_rejects_mismatch:
  assumes "CRISP_data c = Inr dat"
  shows "(ndim dat \<noteq> 1 \<longrightarrow>
            CRISP_plot_spectrum E c unit air d = Inl (IndexError use_plot_stokes)) \<and>
         (ndim dat = 2 \<and> stokes \<notin> set stokes_components \<longrightarrow>
            isl (CRISP_stokes_map E c stokes frame) \<and>
            (\<forall>su. stokes_map_setup E c frame = Inr su \<longrightarrow>
               CRISP_stokes_map E c stokes frame = Inl (ValueError (one_component stokes)))) \<and>
         (ndim dat = 2 \<and> stokes \<noteq> ''all'' \<and> (\<exists>s \<in> set stokes. [s] \<notin> set stokes_components) \<longrightarrow>
            isl (CRISP_plot_stokes_internal E c stokes wavelength unit air d) \<and>
            (\<forall>tp. plot_stokes_title_parts c = Inr tp \<longrightarrow>
               CRISP_plot_stokes_internal E c stokes wavelength unit air d =
                 Inl (ValueError (not_all_valid stokes))))"
proof -
  have a: "ndim dat \<noteq> 1 \<longrightarrow>
            CRISP_plot_spectrum E c unit air d = Inl (IndexError use_plot_stokes)"
    using assms by (simp add: CRISP_plot_spectrum_def bindE_Inr)
  have b: "ndim dat = 2 \<and> stokes \<notin> set stokes_components \<longrightarrow>
            isl (CRISP_stokes_map E c stokes frame) \<and>
            (\<forall>su. stokes_map_setup E c frame = Inr su \<longrightarrow>
               CRISP_stokes_map E c stokes frame = Inl (ValueError (one_component stokes)))"
    using assms
    by (cases "stokes_map_setup E c frame")
      (auto simp: CRISP_stokes_map_def bindE_def split: prod.splits)
  have c: "ndim dat = 2 \<and> stokes \<noteq> ''all'' \<and> (\<exists>s \<in> set stokes. [s] \<notin> set stokes_components) \<longrightarrow>
            isl (CRISP_plot_stokes_internal E c stokes wavelength unit air d) \<and>
            (\<forall>tp. plot_stokes_title_parts c = Inr tp \<longrightarrow>
               CRISP_plot_stokes_internal E c stokes wavelength unit air d =
                 Inl (ValueError (not_all_valid stokes)))"
    using assms
    by (cases "plot_stokes_title_parts c")
      (auto simp: CRISP_plot_stokes_internal_def bindE_def Let_def split: prod.splits)
  from a b c show ?thesis by blast
qed

text \<open>
  Data of a rank \<open>_plot_stokes\<close> has no branch for: the method returns without
  plotting and without an exception.
\<close>

lemma plot_stokes_internal_other_rank:
  assumes "CRISP_data c = Inr dat" and "ndim dat \<noteq> 1" and "ndim dat \<noteq> 2"
    and "plot_stokes_title_parts c = Inr tp"
  shows "CRISP_plot_stokes_internal E c stokes wavelength unit air d = Inr None"
  using assms
  by (simp add: CRISP_plot_stokes_internal_def bindE_def Let_def split: prod.splits)

lemma plotting_rejects_mismatch_example:
  "CRISP_plot_spectrum stub_ext (wrapper alt_header None) None False False =
     Inl (IndexError use_plot_stokes) \<and>
   isl (CRISP_stokes_map stub_ext (wrapper alt_header None) ''IQ'' None) \<and>
   CRISP_plot_stokes_internal stub_ext (wrapper alt_header None) ''IX'' (Num 0) None False False =
     Inl (ValueError (not_all_valid ''IX''))"
proof -
  have n: "ndim (NDArray [2, 8] (0::nat)) = 2" by (simp add: ndim_def)
  have t: "plot_stokes_title_parts (wrapper alt_header None :: (nat, stub_wcs) crisp) =
      Inr (PStr ''2014-09-06T09:15:00'', PStr ''Ca II'')"
    by (simp add: plot_stokes_title_parts_def wrapper_header bindE_def hdr_get_def alt_header_def
        try_except_KeyError_def datetime_fallback_def py_add_def)
  from plotting_rejects_mismatch [OF wrapper_data [of alt_header None], where E = stub_ext
      and unit = None and air = False and d = False and frame = None
      and stokes = "''IX''" and wavelength = "Num 0"]
    plotting_rejects_mismatch [OF wrapper_data [of alt_header None], where E = stub_ext
      and unit = None and air = False and d = False and frame = None
      and stokes = "''IQ''" and wavelength = "Num 0"]
  show ?thesis
    using n t by (simp add: stokes_components_def)
qed

text \<open>
  Claim C4. Every plotting call with mismatched dimensionality should be rejected with a
  descriptive error. \<open>plot_spectrum\<close> does reject data that is not one-dimensional, and
  the Stokes requests on two-dimensional data are checked (lemma
  \<open>plotting_rejects_mismatch\<close>), but the dispatch of \<open>_plot_stokes\<close> on the rank of the
  data has branches for ranks 1 and 2 only and no final branch: \<open>plot_stokes\<close> on an
  unsliced three-dimensional cube returns \<open>None\<close>, without a plot and without an
  exception.
\<close>

theorem plot_stokes_unhandled_rank:
  "CRISP_plot_stokes stub_ext cube ''I'' None False False = Inr None"
  by (simp add: CRISP_plot_stokes_def CRISP_plot_stokes_internal_def CRISP_wave_def
      CRISP_data_def CRISP_header_def file_header_def container_header_def
      plot_stokes_title_parts_def
      try_except_KeyError_def datetime_fallback_def py_add_def hdr_get_def get_wcs_def
      rank_def ndim_def py_index_def bindE_def cube_def alt_header_def stub_ext_def)

theorem plot_stokes_unhandled_rank_witness:
  "\<not> isl (CRISP_plot_stokes stub_ext cube ''I'' None False False)"
  using plot_stokes_unhandled_rank by simp

subsection \<open>The metadata fallback\<close>

lemma py_index_neg:
  "0 < k \<Longrightarrow> k \<le> length xs \<Longrightarrow> py_index xs (- int k) = Inr (xs ! (length xs - k))"
  by (simp add: py_index_def nat_diff_distrib' of_nat_diff)

text \<open>
  Claim C5, as amended. For a wrapper whose header lacks \<open>DATE-AVG\<close> and holds the keys
  of the alternate convention (\<open>time_obs\<close> and \<open>date_obs\<close> as strings, \<open>crval\<close> and
  \<open>dimensions\<close> as lists of at least three entries, \<open>element\<close>), \<open>__str__\<close>, \<open>time\<close>,
  \<open>date\<close> and the title parts of \<open>_plot_stokes\<close> do not fail and return what those
  keys give.
\<close>
theorem metadata_fallback:
  assumes "CRISP_header c = Inr h" and "map_of h ''DATE-AVG'' = None"
    and "map_of h ''time_obs'' = Some (PStr t)" and "map_of h ''date_obs'' = Some (PStr dt)"
    and "map_of h ''crval'' = Some (PList cv)" and "3 \<le> length cv"
    and "map_of h ''dimensions'' = Some (PList dm)" and "3 \<le> length dm"
    and "map_of h ''element'' = Some el"
  shows "CRISP_str E c =
           Inr (render \<lparr> f_date = dt, f_time = t, f_el = pstr E el,
                         f_cl = pstr E (cv ! (length cv - 3)),
                         f_wwidth = pstr E (dm ! (length dm - 3)),
                         f_pointing_x = pstr E (cv ! (length cv - 1)),
                         f_pointing_y = pstr E (cv ! (length cv - 2)),
                         f_shape = pstr E (PList dm) \<rparr>) \<and>
         CRISP_time c = Inr (PStr t) \<and>
         CRISP_date c = Inr (PStr dt) \<and>
         plot_stokes_title_parts c = Inr (PStr (dt @ ''T'' @ t), el)"
proof -
  have i3: "py_index cv (- 3) = Inr (cv ! (length cv - 3))"
    using py_index_neg [of 3 cv] assms(6) by simp
  have i2: "py_index cv (- 2) = Inr (cv ! (length cv - 2))"
    using py_index_neg [of 2 cv] assms(6) by simp
  have i1: "py_index cv (- 1) = Inr (cv ! (length cv - 1))"
    using py_index_neg [of 1 cv] assms(6) by simp
  have d3: "py_index dm (- 3) = Inr (dm ! (length dm - 3))"
    using py_index_neg [of 3 dm] assms(8) by simp
  have tr: "str_try E c = Inl (KeyError ''DATE-AVG'')"
    using assms(1,2) by (simp add: str_try_def bindE_def hdr_get_def)
  have exc: "str_except E c =
      Inr \<lparr> f_date = dt, f_time = t, f_el = pstr E el,
            f_cl = pstr E (cv ! (length cv - 3)),
            f_wwidth = pstr E (dm ! (length dm - 3)),
            f_pointing_x = pstr E (cv ! (length cv - 1)),
            f_pointing_y = pstr E (cv ! (length cv - 2)),
            f_shape = pstr E (PList dm) \<rparr>"
    using assms i3 i2 i1 d3
    by (simp add: str_except_def bindE_def hdr_get_def pyval_index_def pstr_def)
  have s: "CRISP_str E c =
           Inr (render \<lparr> f_date = dt, f_time = t, f_el = pstr E el,
                         f_cl = pstr E (cv ! (length cv - 3)),
                         f_wwidth = pstr E (dm ! (length dm - 3)),
                         f_pointing_x = pstr E (cv ! (length cv - 1)),
                         f_pointing_y = pstr E (cv ! (length cv - 2)),
                         f_shape = pstr E (PList dm) \<rparr>)"
    by (simp add: CRISP_str_def tr exc try_except_KeyError_def)
  have tm: "CRISP_time c = Inr (PStr t)"
    using assms(1,2,3) by (simp add: CRISP_time_def bindE_def hdr_get_def try_except_KeyError_def)
  have da: "CRISP_date c = Inr (PStr dt)"
    using assms(1,2,4) by (simp add: CRISP_date_def bindE_def hdr_get_def try_except_KeyError_def)
  have ti: "plot_stokes_title_parts c = Inr (PStr (dt @ ''T'' @ t), el)"
    using assms(1,2,3,4,9)
    by (simp add: plot_stokes_title_parts_def bindE_def hdr_get_def try_except_KeyError_def
        datetime_fallback_def py_add_def)
  from s tm da ti show ?thesis by blast
qed

theorem metadata_fallback_witness:
  "CRISP_time (wrapper alt_header None :: (nat, stub_wcs) crisp) = Inr (PStr ''09:15:00'') \<and>
   CRISP_date (wrapper alt_header None :: (nat, stub_wcs) crisp) = Inr (PStr ''2014-09-06'') \<and>
   plot_stokes_title_parts (wrapper alt_header None :: (nat, stub_wcs) crisp) =
     Inr (PStr ''2014-09-06T09:15:00'', PStr ''Ca II'') \<and>
   CRISP_str stub_ext (wrapper alt_header None) =
     Inr (render \<lparr> f_date = ''2014-09-06'', f_time = ''09:15:00'', f_el = ''Ca II'',
                   f_cl = ''8542'', f_wwidth = ''11'', f_pointing_x = ''9'',
                   f_pointing_y = ''5'', f_shape = ''[]'' \<rparr>)"
  using metadata_fallback [where E = stub_ext and c = "wrapper alt_header None"
      and h = alt_header and t = "''09:15:00''" and dt = "''2014-09-06''"
      and cv = "[PInt 8542, PInt 5, PInt 9]" and dm = "[PInt 11, PInt 2, PInt 8]"
      and el = "PStr ''Ca II''", OF wrapper_header [of alt_header None]]
  by (simp add: alt_header_def pstr_def string_of_int_def digit_char_def stub_ext_def)

text \<open>
  Claim C5 as stated fails on a header that has neither convention's keys: the fallback
  itself raises \<open>KeyError\<close>.
\<close>
theorem metadata_no_fallback_keys:
  "CRISP_str stub_ext (wrapper [] None) = Inl (KeyError ''time_obs'') \<and>
   CRISP_time (wrapper [] None :: (nat, stub_wcs) crisp) = Inl (KeyError ''time_obs'') \<and>
   CRISP_date (wrapper [] None :: (nat, stub_wcs) crisp) = Inl (KeyError ''date_obs'') \<and>
   plot_stokes_title_parts (wrapper [] None :: (nat, stub_wcs) crisp) = Inl (KeyError ''date_obs'')"
  by (simp add: CRISP_str_def str_try_def str_except_def CRISP_time_def CRISP_date_def
      plot_stokes_title_parts_def datetime_fallback_def wrapper_header bindE_def hdr_get_def
      try_except_KeyError_def)

end
